theory Spec2Isabelle
  imports Main "HOL-Library.Sublist"
begin

section \<open>JavaScript values, errors and strings\<close>

text \<open>
  The server (\<^verbatim>\<open>src/server.js\<close>) is modelled function by function. Every exception the
  JavaScript can raise is a value of \<open>js_error\<close>. The texts of the \<open>TypeError\<close>s are the
  engine's and are only indicative.
\<close>

text \<open>A property that holds text may also be \<^verbatim>\<open>undefined\<close> or \<^verbatim>\<open>null\<close>.\<close>

datatype jsval = Undefined | Null | Str string

text \<open>What a \<^verbatim>\<open>throw\<close> or a rejected promise carries: an \<^verbatim>\<open>Error\<close> object with its message,
  or a value that is no \<^verbatim>\<open>Error\<close>, namely \<^verbatim>\<open>null\<close>, \<^verbatim>\<open>undefined\<close> or a string (any other value
  without a \<^verbatim>\<open>message\<close> property behaves as a string does).\<close>

datatype js_error =
    TypeError string
  | ModelCallError string
  | ToolExecutionError string
  | SyntaxError string
  | FsError string
  | ThrownValue jsval

text \<open>\<^verbatim>\<open>error.message\<close>: the message of an \<^verbatim>\<open>Error\<close>, \<^verbatim>\<open>undefined\<close> on a string, and itself a
  \<^verbatim>\<open>TypeError\<close> on \<^verbatim>\<open>null\<close> and on \<^verbatim>\<open>undefined\<close>.\<close>

fun error_message :: "js_error \<Rightarrow> js_error + jsval" where
  "error_message (TypeError m) = Inr (Str m)"
| "error_message (ModelCallError m) = Inr (Str m)"
| "error_message (ToolExecutionError m) = Inr (Str m)"
| "error_message (SyntaxError m) = Inr (Str m)"
| "error_message (FsError m) = Inr (Str m)"
| "error_message (ThrownValue (Str v)) = Inr Undefined"
| "error_message (ThrownValue Null) =
     Inl (TypeError ''Cannot read properties of null (reading message)'')"
| "error_message (ThrownValue Undefined) =
     Inl (TypeError ''Cannot read properties of undefined (reading message)'')"

text \<open>\<^verbatim>\<open>s.includes(p)\<close>, \<^verbatim>\<open>s.indexOf(p)\<close>, \<^verbatim>\<open>s.lastIndexOf(p)\<close>, \<^verbatim>\<open>s.substring(a, b)\<close>,
  \<^verbatim>\<open>s.endsWith(p)\<close> and \<^verbatim>\<open>s.slice(0, -3)\<close> on strings.\<close>

definition startsWith :: "string \<Rightarrow> string \<Rightarrow> bool" where
  "startsWith s p = (take (length p) s = p)"

definition endsWith :: "string \<Rightarrow> string \<Rightarrow> bool" where
  "endsWith s p = (length p \<le> length s \<and> drop (length s - length p) s = p)"

fun includes_str :: "string \<Rightarrow> string \<Rightarrow> bool" where
  "includes_str [] p = (p = [])"
| "includes_str (c # cs) p = (startsWith (c # cs) p \<or> includes_str cs p)"

fun indexOf :: "string \<Rightarrow> string \<Rightarrow> int" where
  "indexOf [] p = (if p = [] then 0 else -1)"
| "indexOf (c # cs) p =
     (if startsWith (c # cs) p then 0
      else (let i = indexOf cs p in if i < 0 then -1 else i + 1))"

fun lastIndexOf :: "string \<Rightarrow> string \<Rightarrow> int" where
  "lastIndexOf [] p = (if p = [] then 0 else -1)"
| "lastIndexOf (c # cs) p =
     (let i = lastIndexOf cs p in
      if 0 \<le> i then i + 1 else if startsWith (c # cs) p then 0 else -1)"

definition substring :: "string \<Rightarrow> int \<Rightarrow> int \<Rightarrow> string" where
  "substring s a b =
     (let n = int (length s);
          a' = max 0 (min a n);
          b' = max 0 (min b n);
          lo = min a' b';
          hi = max a' b'
      in take (nat (hi - lo)) (drop (nat lo) s))"

definition slice_off3 :: "string \<Rightarrow> string" where
  "slice_off3 s = take (length s - 3) s"

text \<open>The decimal text of a number in a template literal; \<^verbatim>\<open>undefined\<close> prints as such.
  Agent ids are the integers \<^verbatim>\<open>Date.now()\<close> returns.\<close>

function show_nat :: "nat \<Rightarrow> string" where
  "show_nat n =
     (if n < 10 then [''0123456789'' ! n]
      else show_nat (n div 10) @ [''0123456789'' ! (n mod 10)])"
  by pat_completeness auto
termination
  by (relation "measure (\<lambda>n. n)") auto

declare show_nat.simps [simp del]

definition show_int :: "int \<Rightarrow> string" where
  "show_int i = (if i < 0 then CHR ''-'' # show_nat (nat (- i)) else show_nat (nat i))"

definition show_id :: "int option \<Rightarrow> string" where
  "show_id i = (case i of None \<Rightarrow> ''undefined'' | Some n \<Rightarrow> show_int n)"

text \<open>\<^verbatim>\<open>obj[key]\<close> on an object literal: an own property, else a property inherited from
  \<^verbatim>\<open>Object.prototype\<close> (a truthy value with no \<^verbatim>\<open>details\<close> and no \<^verbatim>\<open>execute\<close>), else
  \<^verbatim>\<open>undefined\<close>. No tool file is taken to be named \<^verbatim>\<open>__proto__.js\<close>.\<close>

datatype 'a property = Own 'a | Inherited | Missing

definition object_prototype_keys :: "string list" where
  "object_prototype_keys =
     [''constructor'', ''__proto__'', ''hasOwnProperty'', ''isPrototypeOf'',
      ''propertyIsEnumerable'', ''toLocaleString'', ''toString'', ''valueOf'',
      ''__defineGetter__'', ''__defineSetter__'', ''__lookupGetter__'', ''__lookupSetter__'']"

definition get_property :: "(string \<rightharpoonup> 'a) \<Rightarrow> string \<Rightarrow> 'a property" where
  "get_property obj key =
     (case obj key of
        Some v \<Rightarrow> Own v
      | None \<Rightarrow> if key \<in> set object_prototype_keys then Inherited else Missing)"

section \<open>Data model\<close>

text \<open>A tool module of \<^verbatim>\<open>./tools\<close> exports \<^verbatim>\<open>details\<close> (the schema the model sees; only its
  \<^verbatim>\<open>name\<close> property is read by the server, and it may lack one) and \<^verbatim>\<open>execute\<close>. The values
  tools take and return are JavaScript values of a type \<open>'j\<close> left open.\<close>

record tool_details =
  details_name :: "string option"

record 'j tool_module =
  details :: tool_details
  execute :: "'j list \<Rightarrow> js_error + 'j"

text \<open>An entry of \<^verbatim>\<open>agent.tools\<close> is whatever \<^verbatim>\<open>tools[toolName]\<close> was when it was pushed.\<close>

datatype 'j tool_entry =
    ToolModule "'j tool_module"
  | InheritedProperty
  | UndefinedEntry

record 'j agent =
  agent_id :: int
  name :: string
  model :: string
  systemMsg :: "string option"
  tools :: "'j tool_entry list"
  history :: "unit list"

record tool_call =
  tc_id :: string
  fn_name :: string
  fn_arguments :: "string option"

text \<open>A transcript entry. The Conductor's entries carry \<^verbatim>\<open>role\<close> and \<^verbatim>\<open>content\<close> only;
  the model's own message may carry \<^verbatim>\<open>tool_calls\<close>; a tool result carries \<^verbatim>\<open>name\<close> and
  \<^verbatim>\<open>tool_call_id\<close>.\<close>

record message =
  role :: jsval
  content :: jsval
  msg_name :: "string option"
  tool_call_id :: "string option"
  tool_calls :: "tool_call list option"

definition plain_message :: "jsval \<Rightarrow> jsval \<Rightarrow> message" where
  "plain_message r c =
     \<lparr>role = r, content = c, msg_name = None, tool_call_id = None, tool_calls = None\<rparr>"

text \<open>The argument of \<^verbatim>\<open>openai.chat.completions.create\<close>, and its result: the list
  \<^verbatim>\<open>response.choices\<close>, each choice given by its \<^verbatim>\<open>message\<close> (\<open>None\<close> when it has none).\<close>

record request =
  req_model :: string
  req_messages :: "message list"
  req_tools :: "tool_details option list option"
  req_tool_choice :: "string option"

type_synonym api_response = "message option list"

text \<open>What lies outside the repository is a parameter: the language model (its answer may
  depend on how many calls came before), the \<^verbatim>\<open>./tools\<close> directory and its modules, the
  file system, and the JSON built-ins.\<close>

record 'j env =
  create :: "nat \<Rightarrow> request \<Rightarrow> js_error + api_response"
  readdirSync :: "js_error + string list"
  import_module :: "string \<Rightarrow> js_error + 'j tool_module"
  JSON_parse :: "string \<Rightarrow> js_error + 'j"
  Object_values :: "'j \<Rightarrow> js_error + 'j list"
  JSON_stringify :: "'j \<Rightarrow> js_error + jsval"
  empty_object :: 'j
  writeFileSync :: "string \<Rightarrow> js_error option"

text \<open>The effects a run leaves behind: the requests sent to the model, in order, and the
  last text written to \<^verbatim>\<open>./code.py\<close>.\<close>

record world =
  calls :: "request list"
  code_py :: "string option"

definition call_model :: "'j env \<Rightarrow> request \<Rightarrow> world \<Rightarrow> (js_error + api_response) \<times> world" where
  "call_model env req w = (create env (length (calls w)) req, w\<lparr>calls := calls w @ [req]\<rparr>)"

section \<open>Agent Store\<close>

text \<open>\<^verbatim>\<open>createAgent\<close>; the clock reading \<^verbatim>\<open>Date.now()\<close> is the first argument.\<close>

definition createAgent :: "int \<Rightarrow> string \<Rightarrow> string \<Rightarrow> string option \<Rightarrow> 'j agent" where
  "createAgent now nm mdl sys =
     \<lparr>agent_id = now, name = nm, model = mdl, systemMsg = sys, tools = [], history = []\<rparr>"

datatype 'j create_agent_reply =
    CreateBadRequest string
  | Created "'j agent"

text \<open>\<^verbatim>\<open>POST /create-agent\<close>: a missing or empty \<^verbatim>\<open>name\<close> or \<^verbatim>\<open>model\<close> is rejected.\<close>

definition create_agent_route ::
  "int \<Rightarrow> string option \<Rightarrow> string option \<Rightarrow> string option \<Rightarrow> 'j agent list
     \<Rightarrow> 'j create_agent_reply \<times> 'j agent list" where
  "create_agent_route now nm mdl sys agents =
     (case (nm, mdl) of
        (Some n, Some m) \<Rightarrow>
          if n = [] \<or> m = [] then (CreateBadRequest ''name and model are required'', agents)
          else (let newAgent = createAgent now n m sys
                in (Created newAgent, agents @ [newAgent]))
      | _ \<Rightarrow> (CreateBadRequest ''name and model are required'', agents))"

text \<open>\<^verbatim>\<open>agents.find(a => a.id === agentId)\<close>; no id equals \<^verbatim>\<open>undefined\<close>.\<close>

definition find_agent :: "'j agent list \<Rightarrow> int option \<Rightarrow> 'j agent option" where
  "find_agent agents agentId =
     (case agentId of None \<Rightarrow> None | Some i \<Rightarrow> find (\<lambda>a. agent_id a = i) agents)"

section \<open>Tool Registry\<close>

text \<open>\<^verbatim>\<open>getTools\<close>: scan the directory, import every \<^verbatim>\<open>.js\<close> file, key it by its base name.\<close>

fun load_tools ::
  "'j env \<Rightarrow> string list \<Rightarrow> (string \<rightharpoonup> 'j tool_module) \<Rightarrow> js_error + (string \<rightharpoonup> 'j tool_module)" where
  "load_tools env [] openAIFunctions = Inr openAIFunctions"
| "load_tools env (file # files) openAIFunctions =
     (if endsWith file ''.js'' then
        (let moduleName = slice_off3 file;
             modulePath = ''./tools/'' @ moduleName @ ''.js''
         in case import_module env modulePath of
              Inl e \<Rightarrow> Inl e
            | Inr m \<Rightarrow> load_tools env files (openAIFunctions(moduleName \<mapsto> m)))
      else load_tools env files openAIFunctions)"

definition getTools :: "'j env \<Rightarrow> js_error + (string \<rightharpoonup> 'j tool_module)" where
  "getTools env =
     (case readdirSync env of
        Inl e \<Rightarrow> Inl e
      | Inr files \<Rightarrow> load_tools env files Map.empty)"

definition entry_of :: "'j tool_module property \<Rightarrow> 'j tool_entry" where
  "entry_of p = (case p of Own m \<Rightarrow> ToolModule m | Inherited \<Rightarrow> InheritedProperty | Missing \<Rightarrow> UndefinedEntry)"

text \<open>\<^verbatim>\<open>agent.tools.some(tool => tool.details.name === toolName)\<close>: an entry without
  \<^verbatim>\<open>details\<close> raises before any later entry is looked at.\<close>

fun some_named :: "'j tool_entry list \<Rightarrow> string \<Rightarrow> js_error + bool" where
  "some_named [] toolName = Inr False"
| "some_named (ToolModule m # ts) toolName =
     (if details_name (details m) = Some toolName then Inr True else some_named ts toolName)"
| "some_named (InheritedProperty # ts) toolName =
     Inl (TypeError ''Cannot read properties of undefined (reading name)'')"
| "some_named (UndefinedEntry # ts) toolName =
     Inl (TypeError ''Cannot read properties of undefined (reading details)'')"

text \<open>\<^verbatim>\<open>agent.tools.push(x)\<close> on the agent \<^verbatim>\<open>find\<close> returned: the first one with that id.\<close>

fun push_tool :: "'j agent list \<Rightarrow> int \<Rightarrow> 'j tool_entry \<Rightarrow> 'j agent list" where
  "push_tool [] i t = []"
| "push_tool (a # as) i t =
     (if agent_id a = i then a\<lparr>tools := tools a @ [t]\<rparr> # as else a # push_tool as i t)"

datatype 'j add_tool_reply =
    BadRequest string
  | NotFound string
  | Assigned "'j agent"
  | Rejected js_error

text \<open>\<^verbatim>\<open>POST /add-tool\<close>, with the body fields at the types its comment gives
  (\<^verbatim>\<open>{ agentId: 123, toolName: "exampleTool" }\<close>), where \<^verbatim>\<open>Number(agentId)\<close> is \<open>agentId\<close>.
  An exception in the handler leaves the request unanswered (\<open>Rejected\<close>).\<close>

definition add_tool ::
  "'j env \<Rightarrow> int \<Rightarrow> string \<Rightarrow> 'j agent list \<Rightarrow> 'j add_tool_reply \<times> 'j agent list" where
  "add_tool env agentId toolName agents =
     (if agentId = 0 \<or> toolName = [] then
        (BadRequest ''agentId and toolName are required'', agents)
      else case find_agent agents (Some agentId) of
        None \<Rightarrow> (NotFound (''Agent with id='' @ show_int agentId @ '' not found.''), agents)
      | Some agent \<Rightarrow>
          (case some_named (tools agent) toolName of
             Inl e \<Rightarrow> (Rejected e, agents)
           | Inr True \<Rightarrow> (BadRequest ''Tool with this name is already assigned.'', agents)
           | Inr False \<Rightarrow>
               (case getTools env of
                  Inl e \<Rightarrow> (Rejected e, agents)
                | Inr tools' \<Rightarrow>
                    (let t = entry_of (get_property tools' toolName)
                     in (Assigned (agent\<lparr>tools := tools agent @ [t]\<rparr>),
                         push_tool agents agentId t)))))"

section \<open>Single-Turn Responder\<close>

text \<open>The four shapes of object \<^verbatim>\<open>getCompletionFromAgent\<close> returns:
  \<^verbatim>\<open>{ role: 'assistant', content }\<close>;
  \<^verbatim>\<open>{ role: "assistant", tool_call: { name, arguments }, model, content, message }\<close>;
  \<^verbatim>\<open>{ message }\<close>; and \<^verbatim>\<open>{ error, details }\<close>.\<close>

datatype 'j agent_response =
    AssistantText jsval
  | ToolSummary string 'j string jsval "message list"
  | MessageOnly string
  | ErrorObject string jsval

fun response_role :: "'j agent_response \<Rightarrow> jsval" where
  "response_role (AssistantText c) = Str ''assistant''"
| "response_role (ToolSummary fnName parsedArgs mdl c ms) = Str ''assistant''"
| "response_role (MessageOnly m) = Undefined"
| "response_role (ErrorObject e d) = Undefined"

fun response_content :: "'j agent_response \<Rightarrow> jsval" where
  "response_content (AssistantText c) = c"
| "response_content (ToolSummary fnName parsedArgs mdl c ms) = c"
| "response_content (MessageOnly m) = Undefined"
| "response_content (ErrorObject e d) = Undefined"

text \<open>A call of the Responder either raises, or returns an object, or runs off the end of
  the function and returns \<^verbatim>\<open>undefined\<close> (\<open>Returned None\<close>).\<close>

datatype 'j completion = Threw js_error | Returned "'j agent_response option"

definition system_message :: "'j agent \<Rightarrow> message" where
  "system_message agent =
     plain_message (Str ''system'')
       (Str (case systemMsg agent of
               None \<Rightarrow> ''You are a helpful agent.''
             | Some s \<Rightarrow> if s = [] then ''You are a helpful agent.'' else s))"

text \<open>\<^verbatim>\<open>Object.values(agent.tools).map((toolObj) => toolObj.details)\<close>, which runs before
  the \<^verbatim>\<open>try\<close>: an \<^verbatim>\<open>undefined\<close> entry raises, an inherited property has no details.\<close>

fun build_schema :: "'j tool_entry list \<Rightarrow> js_error + tool_details option list" where
  "build_schema [] = Inr []"
| "build_schema (UndefinedEntry # ts) =
     Inl (TypeError ''Cannot read properties of undefined (reading details)'')"
| "build_schema (InheritedProperty # ts) =
     (case build_schema ts of Inl e \<Rightarrow> Inl e | Inr ds \<Rightarrow> Inr (None # ds))"
| "build_schema (ToolModule m # ts) =
     (case build_schema ts of Inl e \<Rightarrow> Inl e | Inr ds \<Rightarrow> Inr (Some (details m) # ds))"

text \<open>\<^verbatim>\<open>response.choices[0].message\<close>, and \<^verbatim>\<open>response.choices[0].message.content\<close> as the
  receiver of \<^verbatim>\<open>.includes\<close>.\<close>

definition first_message :: "api_response \<Rightarrow> js_error + message option" where
  "first_message response =
     (case response of
        [] \<Rightarrow> Inl (TypeError ''Cannot read properties of undefined (reading message)'')
      | c # _ \<Rightarrow> Inr c)"

definition content_text :: "api_response \<Rightarrow> js_error + string" where
  "content_text response =
     (case first_message response of
        Inl e \<Rightarrow> Inl e
      | Inr None \<Rightarrow> Inl (TypeError ''Cannot read properties of undefined (reading content)'')
      | Inr (Some m) \<Rightarrow>
          (case content m of
             Str s \<Rightarrow> Inr s
           | Null \<Rightarrow> Inl (TypeError ''Cannot read properties of null (reading includes)'')
           | Undefined \<Rightarrow> Inl (TypeError ''Cannot read properties of undefined (reading includes)'')))"

definition fence :: string where
  "fence = ''```''"

definition extract_code :: "string \<Rightarrow> string" where
  "extract_code text =
     (let start_index = indexOf text fence + 3;
          end_index = lastIndexOf text fence
      in substring text start_index end_index)"

text \<open>Lines 153 to 160: \<^verbatim>\<open>arguments || "{}"\<close> is parsed, and a payload that does not parse
  leaves \<^verbatim>\<open>parsedArgs = {}\<close>.\<close>

definition parse_arguments :: "'j env \<Rightarrow> tool_call \<Rightarrow> 'j" where
  "parse_arguments env tc =
     (let rawArgs = (case fn_arguments tc of
                       None \<Rightarrow> ''{}''
                     | Some a \<Rightarrow> if a = [] then ''{}'' else a)
      in case JSON_parse env rawArgs of
           Inl err \<Rightarrow> empty_object env
         | Inr v \<Rightarrow> v)"

text \<open>The two shapes of request the Responder sends: without and with tool schemas.\<close>

definition plain_request :: "string \<Rightarrow> message list \<Rightarrow> request" where
  "plain_request mdl ms =
     \<lparr>req_model = mdl, req_messages = ms, req_tools = None, req_tool_choice = None\<rparr>"

definition tools_request :: "string \<Rightarrow> message list \<Rightarrow> tool_details option list \<Rightarrow> request" where
  "tools_request mdl ms schema =
     \<lparr>req_model = mdl, req_messages = ms, req_tools = Some schema,
      req_tool_choice = Some ''auto''\<rparr>"

text \<open>Lines 152 to 204: the round trip for the first tool call of the model's message.
  The two \<^verbatim>\<open>messages.push\<close> act on the caller's array, so the transcript is returned with
  the result, also when a later step raises.\<close>

definition tool_round_trip ::
  "'j env \<Rightarrow> 'j agent \<Rightarrow> message list \<Rightarrow> message \<Rightarrow> tool_call \<Rightarrow> world
     \<Rightarrow> (js_error + 'j agent_response option) \<times> message list \<times> world" where
  "tool_round_trip env agent messages message tc w =
     (let fnName = fn_name tc;
          parsedArgs = parse_arguments env tc
      in case getTools env of
           Inl e \<Rightarrow> (Inl e, messages, w)
         | Inr allTools \<Rightarrow>
            (case get_property allTools fnName of
               Missing \<Rightarrow> (Inr (Some (MessageOnly ''No function call detected.'')), messages, w)
             | Inherited \<Rightarrow>
                 (case Object_values env parsedArgs of
                    Inl e \<Rightarrow> (Inl e, messages, w)
                  | Inr args \<Rightarrow>
                      (Inl (TypeError ''allTools[fnName].execute is not a function''), messages, w))
             | Own tool \<Rightarrow>
                 (case Object_values env parsedArgs of
                    Inl e \<Rightarrow> (Inl e, messages, w)
                  | Inr args \<Rightarrow>
                     (case execute tool args of
                        Inl e \<Rightarrow> (Inl e, messages, w)
                      | Inr result \<Rightarrow>
                         (case JSON_stringify env result of
                            Inl e \<Rightarrow> (Inl e, messages, w)
                          | Inr text \<Rightarrow>
                             (let tool_call_result_message =
                                    \<lparr>role = Str ''tool'', content = text, msg_name = Some fnName,
                                     tool_call_id = Some (tc_id tc), tool_calls = None\<rparr>;
                                  messages' = messages @ [message, tool_call_result_message]
                              in case call_model env (plain_request (model agent) messages') w of
                                   (Inl e, w') \<Rightarrow> (Inl e, messages', w')
                                 | (Inr final_response, w') \<Rightarrow>
                                    (case first_message final_response of
                                       Inl e \<Rightarrow> (Inl e, messages', w')
                                     | Inr None \<Rightarrow>
                                        (Inl (TypeError ''Cannot read properties of undefined (reading content)''),
                                         messages', w')
                                     | Inr (Some final_message) \<Rightarrow>
                                        (Inr (Some (ToolSummary fnName parsedArgs (model agent)
                                                      (content final_message) messages')),
                                         messages', w'))))))))"

text \<open>The body of the \<^verbatim>\<open>try\<close>, lines 113 to 208, with the braces as the file has them: the
  \<^verbatim>\<open>else\<close> of line 206 belongs to \<^verbatim>\<open>if (schema.length === 0)\<close>, and everything from line
  142 to 205 is inside that \<^verbatim>\<open>if\<close>. The \<^verbatim>\<open>response\<close> of line 135 is local to its block, so
  line 142 reads the first response.\<close>

definition try_body ::
  "'j env \<Rightarrow> 'j agent \<Rightarrow> message list \<Rightarrow> message list \<Rightarrow> tool_details option list \<Rightarrow> world
     \<Rightarrow> (js_error + 'j agent_response option) \<times> message list \<times> world" where
  "try_body env agent messages chatMessages schema w =
     (if length schema = 0 then
        (case call_model env (plain_request (model agent) chatMessages) w of
           (Inl e, w1) \<Rightarrow> (Inl e, messages, w1)
         | (Inr response, w1) \<Rightarrow>
            (case content_text response of
               Inl e \<Rightarrow> (Inl e, messages, w1)
             | Inr text \<Rightarrow>
                if includes_str text fence then
                  (let extracted_code = extract_code text
                   in case writeFileSync env extracted_code of
                        Some e \<Rightarrow> (Inl e, messages, w1)
                      | None \<Rightarrow>
                          (Inr (Some (AssistantText (Str text))), messages,
                           w1\<lparr>code_py := Some extracted_code\<rparr>))
                else
                  (case call_model env (tools_request (model agent) chatMessages schema) w1 of
                     (Inl e, w2) \<Rightarrow> (Inl e, messages, w2)
                   | (Inr response2, w2) \<Rightarrow>
                      (case first_message response of
                         Inl e \<Rightarrow> (Inl e, messages, w2)
                       | Inr None \<Rightarrow>
                          (Inr (Some (AssistantText (Str ''(No content returned.)''))), messages, w2)
                       | Inr (Some message) \<Rightarrow>
                          (case tool_calls message of
                             None \<Rightarrow>
                               (Inl (TypeError ''Cannot read properties of undefined (reading 0)''),
                                messages, w2)
                           | Some [] \<Rightarrow> (Inr None, messages, w2)
                           | Some (tc # _) \<Rightarrow> tool_round_trip env agent messages message tc w2)))))
      else (Inr (Some (MessageOnly ''No function call detected.'')), messages, w))"

text \<open>\<^verbatim>\<open>getCompletionFromAgent(agent, messages)\<close>: the result, the caller's \<^verbatim>\<open>messages\<close>
  array as the call leaves it, and the world. The \<^verbatim>\<open>catch\<close> turns whatever the body
  raises into \<^verbatim>\<open>{ error: 'OpenAI API failed', details: error.message }\<close>; reading
  \<^verbatim>\<open>error.message\<close> raises in its turn when the body threw \<^verbatim>\<open>null\<close> or \<^verbatim>\<open>undefined\<close>, and that
  \<^verbatim>\<open>TypeError\<close> leaves the function.\<close>

definition getCompletionFromAgent ::
  "'j env \<Rightarrow> 'j agent \<Rightarrow> message list \<Rightarrow> world \<Rightarrow> 'j completion \<times> message list \<times> world" where
  "getCompletionFromAgent env agent messages w =
     (let systemMsg' = system_message agent;
          chatMessages = systemMsg' # messages
      in case build_schema (tools agent) of
           Inl e \<Rightarrow> (Threw e, messages, w)
         | Inr schema \<Rightarrow>
            (case try_body env agent messages chatMessages schema w of
               (Inl error, messages', w') \<Rightarrow>
                 (case error_message error of
                    Inl e \<Rightarrow> (Threw e, messages', w')
                  | Inr text \<Rightarrow>
                      (Returned (Some (ErrorObject ''OpenAI API failed'' text)), messages', w'))
             | (Inr r, messages', w') \<Rightarrow> (Returned r, messages', w')))"

text \<open>The requests of one turn on the transcript \<open>ms\<close>: the first call of line 116, the
  second of line 135 (the schema list is empty there), and the follow-up of line 186 on the
  transcript with the model's message and the tool result pushed onto it.\<close>

definition first_request :: "'j agent \<Rightarrow> message list \<Rightarrow> request" where
  "first_request agent ms = plain_request (model agent) (system_message agent # ms)"

definition second_request :: "'j agent \<Rightarrow> message list \<Rightarrow> request" where
  "second_request agent ms = tools_request (model agent) (system_message agent # ms) []"

definition tool_result_message :: "tool_call \<Rightarrow> jsval \<Rightarrow> message" where
  "tool_result_message tc text =
     \<lparr>role = Str ''tool'', content = text, msg_name = Some (fn_name tc),
      tool_call_id = Some (tc_id tc), tool_calls = None\<rparr>"

definition follow_up_request ::
  "'j agent \<Rightarrow> message list \<Rightarrow> message \<Rightarrow> tool_call \<Rightarrow> jsval \<Rightarrow> request" where
  "follow_up_request agent ms message tc text =
     plain_request (model agent) (ms @ [message, tool_result_message tc text])"

text \<open>The world after further requests.\<close>

definition after_calls :: "world \<Rightarrow> request list \<Rightarrow> world" where
  "after_calls w reqs = w\<lparr>calls := calls w @ reqs\<rparr>"

section \<open>Conductor\<close>

record conductor_state =
  messages :: "message list"
  turnCount :: nat
  agentIndex :: nat

text \<open>\<^verbatim>\<open>agentIds[agentIndex]\<close>: \<^verbatim>\<open>undefined\<close> past the end.\<close>

definition index_opt :: "'a list \<Rightarrow> nat \<Rightarrow> 'a option" where
  "index_opt xs i = (if i < length xs then Some (xs ! i) else None)"

definition not_found_message :: "int option \<Rightarrow> message" where
  "not_found_message agentId =
     plain_message (Str ''system'')
       (Str (''Agent with id='' @ show_id agentId @ '' not found. Stopping.''))"

text \<open>The \<^verbatim>\<open>while\<close> loop of \<^verbatim>\<open>runMultiAgentConductor\<close>, from any state of its three
  variables. Reading \<^verbatim>\<open>agentResponse.role\<close> of \<^verbatim>\<open>undefined\<close> raises, and so does a Responder
  that raised; either ends the run without a result.\<close>

function conductor_loop ::
  "'j env \<Rightarrow> 'j agent list \<Rightarrow> int list \<Rightarrow> int \<Rightarrow> conductor_state \<Rightarrow> world
     \<Rightarrow> (js_error + conductor_state) \<times> world" where
  "conductor_loop env agents agentIds max_turns st w =
     (if int (turnCount st) < max_turns then
        (let agentId = index_opt agentIds (agentIndex st)
         in case find_agent agents agentId of
              None \<Rightarrow> (Inr (st\<lparr>messages := messages st @ [not_found_message agentId]\<rparr>), w)
            | Some agent \<Rightarrow>
               (case getCompletionFromAgent env agent (messages st) w of
                  (Threw e, messages', w') \<Rightarrow> (Inl e, w')
                | (Returned None, messages', w') \<Rightarrow>
                    (Inl (TypeError ''Cannot read properties of undefined (reading role)''), w')
                | (Returned (Some agentResponse), messages', w') \<Rightarrow>
                    conductor_loop env agents agentIds max_turns
                      \<lparr>messages = messages' @
                         [plain_message (response_role agentResponse) (response_content agentResponse)],
                       turnCount = turnCount st + 1,
                       agentIndex = (agentIndex st + 1) mod length agentIds\<rparr> w'))
      else (Inr st, w))"
  by pat_completeness auto
termination
  by (relation "measure (\<lambda>(env, agents, agentIds, max_turns, st, w). nat (max_turns - int (turnCount st)))")
     auto

declare conductor_loop.simps [simp del]

record conversation =
  conv_messages :: "message list"

text \<open>\<^verbatim>\<open>runMultiAgentConductor({ agentIds, messages, max_turns = 6 })\<close>: the default applies
  when \<^verbatim>\<open>max_turns\<close> is \<^verbatim>\<open>undefined\<close>; the result keeps the transcript only.\<close>

definition initial_state :: "message list \<Rightarrow> conductor_state" where
  "initial_state ms = \<lparr>messages = ms, turnCount = 0, agentIndex = 0\<rparr>"

definition runMultiAgentConductor ::
  "'j env \<Rightarrow> 'j agent list \<Rightarrow> int list \<Rightarrow> message list \<Rightarrow> int option \<Rightarrow> world
     \<Rightarrow> (js_error + conversation) \<times> world" where
  "runMultiAgentConductor env agents agentIds ms max_turns w =
     (case conductor_loop env agents agentIds
             (case max_turns of None \<Rightarrow> 6 | Some n \<Rightarrow> n) (initial_state ms) w of
        (Inl e, w') \<Rightarrow> (Inl e, w')
      | (Inr st, w') \<Rightarrow> (Inr \<lparr>conv_messages = messages st\<rparr>, w'))"

text \<open>A record of a run, turn by turn: what the Responder pushed onto the transcript and what
  it returned. \<open>replay\<close> goes through such a record from a transcript, an index into the id
  list and a world: the agent is the one the index resolves to, the Responder is called on
  the transcript so far, it must push and return what the record says, and the transcript
  goes on with the Conductor's entry for that result and the index with the next position.
  The result is the transcript, index and world after the last turn.\<close>

fun replay ::
  "'j env \<Rightarrow> 'j agent list \<Rightarrow> int list \<Rightarrow> (message list \<times> 'j agent_response) list
     \<Rightarrow> message list \<times> nat \<times> world \<Rightarrow> (message list \<times> nat \<times> world) option" where
  "replay env agents agentIds [] c = Some c"
| "replay env agents agentIds ((pushed, r) # turns) (ms, i, w) =
     (case find_agent agents (index_opt agentIds i) of
        None \<Rightarrow> None
      | Some agent \<Rightarrow>
          (case getCompletionFromAgent env agent ms w of
             (c, ms1, w1) \<Rightarrow>
               if c = Returned (Some r) \<and> ms1 = ms @ pushed then
                 replay env agents agentIds turns
                   (ms1 @ [plain_message (response_role r) (response_content r)],
                    (i + 1) mod length agentIds, w1)
               else None))"

section \<open>Conversation entry point\<close>

text \<open>\<^verbatim>\<open>POST /start-conversation\<close> with body \<^verbatim>\<open>{ agentIds, userInput, maxTurns }\<close>:
  \<open>agentIds\<close> is \<open>None\<close> when the field is missing or no array, and its elements are numbers,
  on which \<^verbatim>\<open>Number\<close> is the identity. \<^verbatim>\<open>maxTurns || 6\<close> replaces a missing and a zero
  \<^verbatim>\<open>maxTurns\<close> alike.\<close>

record start_body =
  agentIds_field :: "int list option"
  userInput :: "string option"
  maxTurns :: "int option"

datatype start_reply =
    StartBadRequest string
  | Conversation conversation
  | ServerError string

definition start_conversation ::
  "'j env \<Rightarrow> 'j agent list \<Rightarrow> start_body \<Rightarrow> world \<Rightarrow> start_reply \<times> world" where
  "start_conversation env agents body w =
     (case agentIds_field body of
        None \<Rightarrow> (StartBadRequest ''agentIds must be a non-empty array'', w)
      | Some agentIds \<Rightarrow>
          if length agentIds = 0 then (StartBadRequest ''agentIds must be a non-empty array'', w)
          else
            (let ms = [plain_message (Str ''user'')
                         (Str (case userInput body of None \<Rightarrow> [] | Some u \<Rightarrow> u))];
                 max_turns = (case maxTurns body of
                                None \<Rightarrow> 6
                              | Some n \<Rightarrow> if n = 0 then 6 else n)
             in case runMultiAgentConductor env agents agentIds ms (Some max_turns) w of
                  (Inl err, w') \<Rightarrow> (ServerError ''Something went wrong.'', w')
                | (Inr conversation, w') \<Rightarrow> (Conversation conversation, w')))"

section \<open>Example inputs\<close>

text \<open>A model that answers with one choice, a tools directory with the given files whose
  modules all export the details name \<open>echo\<close> and the given \<open>execute\<close>, JSON built-ins
  on a one-point value type, and a file system that accepts every write.\<close>

definition says :: "jsval \<Rightarrow> tool_call list option \<Rightarrow> js_error + api_response" where
  "says c tcs =
     Inr [Some \<lparr>role = Str ''assistant'', content = c, msg_name = None,
                tool_call_id = None, tool_calls = tcs\<rparr>]"

definition stub_env ::
  "(nat \<Rightarrow> request \<Rightarrow> js_error + api_response) \<Rightarrow> string list
     \<Rightarrow> (unit list \<Rightarrow> js_error + unit) \<Rightarrow> unit env" where
  "stub_env reply files exec =
     \<lparr>create = reply,
      readdirSync = Inr files,
      import_module = (\<lambda>p. Inr \<lparr>details = \<lparr>details_name = Some ''echo''\<rparr>, execute = exec\<rparr>),
      JSON_parse = (\<lambda>s. Inr ()),
      Object_values = (\<lambda>j. Inr []),
      JSON_stringify = (\<lambda>j. Inr (Str ''null'')),
      empty_object = (),
      writeFileSync = (\<lambda>s. None)\<rparr>"

definition no_exec :: "unit list \<Rightarrow> js_error + unit" where
  "no_exec args = Inl (ToolExecutionError ''boom'')"

definition w0 :: world where
  "w0 = \<lparr>calls = [], code_py = None\<rparr>"

definition user_go :: message where
  "user_go = plain_message (Str ''user'') (Str ''go'')"

definition agentA :: "unit agent" where
  "agentA = createAgent 1 ''A'' ''gpt-4o'' None"

definition agentB :: "unit agent" where
  "agentB = createAgent 2 ''B'' ''gpt-4o'' None"

text \<open>A model that always answers with the fenced text \<open>x\<close>.\<close>

definition fenced_env :: "unit env" where
  "fenced_env = stub_env (\<lambda>n req. says (Str ''```x```'') None) [] no_exec"

text \<open>A model whose every call fails, and the world after one turn with it.\<close>

definition down_env :: "unit env" where
  "down_env = stub_env (\<lambda>n req. Inl (ModelCallError ''connection refused'')) [] no_exec"

definition w_down :: world where
  "w_down = \<lparr>calls = [plain_request ''gpt-4o''
                    [plain_message (Str ''system'') (Str ''You are a helpful agent.''), user_go]],
         code_py = None\<rparr>"


text \<open>A model that asks for the tool \<open>echo\<close>, whose \<open>execute\<close> fails; a model that asks
  for a tool no file provides; a model whose first and later answers differ; and the world
  after a turn that called the model twice.\<close>

definition echo_call :: tool_call where
  "echo_call = \<lparr>tc_id = ''call_1'', fn_name = ''echo'', fn_arguments = Some ''{}''\<rparr>"

definition nosuch_call :: tool_call where
  "nosuch_call = \<lparr>tc_id = ''call_1'', fn_name = ''nosuch'', fn_arguments = Some ''{}''\<rparr>"

definition failing_tool_env :: "unit env" where
  "failing_tool_env = stub_env (\<lambda>n req. says (Str ''calling'') (Some [echo_call])) [''echo.js''] no_exec"

definition unknown_tool_env :: "jsval \<Rightarrow> unit env" where
  "unknown_tool_env c = stub_env (\<lambda>n req. says c (Some [nosuch_call])) [] no_exec"

definition two_replies_env :: "unit env" where
  "two_replies_env =
     stub_env (\<lambda>n req. if n = 0 then says (Str ''```hi```'') None else says (Str ''```hello```'') None)
       [] no_exec"

definition system_default :: message where
  "system_default = plain_message (Str ''system'') (Str ''You are a helpful agent.'')"

definition w_twice :: world where
  "w_twice = \<lparr>calls = [plain_request ''gpt-4o'' [system_default, user_go],
                       tools_request ''gpt-4o'' [system_default, user_go] []],
              code_py = None\<rparr>"

definition echo_module :: "unit tool_module" where
  "echo_module = \<lparr>details = \<lparr>details_name = Some ''echo''\<rparr>, execute = no_exec\<rparr>"

text \<open>The two entries the Conductor appends in the two-agent run, and the worlds after its
  first and second turn.\<close>

definition hi_message :: message where
  "hi_message = \<lparr>role = Str ''assistant'', content = Str ''```hi```'', msg_name = None,
                  tool_call_id = None, tool_calls = None\<rparr>"

definition hello_message :: message where
  "hello_message = \<lparr>role = Str ''assistant'', content = Str ''```hello```'', msg_name = None,
                  tool_call_id = None, tool_calls = None\<rparr>"

definition w_hi :: world where
  "w_hi = \<lparr>calls = [plain_request ''gpt-4o'' [system_default, user_go]], code_py = Some ''hi''\<rparr>"

definition w_hello :: world where
  "w_hello = \<lparr>calls = [plain_request ''gpt-4o'' [system_default, user_go],
                       plain_request ''gpt-4o'' [system_default, user_go, hi_message]],
              code_py = Some ''hello''\<rparr>"

text \<open>An agent that holds the tool \<open>echo\<close>, and the agent \<open>A\<close> after \<^verbatim>\<open>undefined\<close> was pushed onto
  its tools.\<close>

definition agentE :: "unit agent" where
  "agentE = \<lparr>agent_id = 1, name = ''A'', model = ''gpt-4o'', systemMsg = None,
              tools = [ToolModule echo_module], history = []\<rparr>"

definition agentU :: "unit agent" where
  "agentU = \<lparr>agent_id = 1, name = ''A'', model = ''gpt-4o'', systemMsg = None,
              tools = [UndefinedEntry], history = []\<rparr>"


text \<open>A tool that works, and a model that asks for it and, once it has the result, answers
  \<open>done\<close>; the model's message, the tool result, and the world after that turn.\<close>

definition echo_ok :: "unit list \<Rightarrow> js_error + unit" where
  "echo_ok args = Inr ()"

definition echo_ok_module :: "unit tool_module" where
  "echo_ok_module = \<lparr>details = \<lparr>details_name = Some ''echo''\<rparr>, execute = echo_ok\<rparr>"

definition round_trip_env :: "unit env" where
  "round_trip_env =
     stub_env (\<lambda>n req. if n < 2 then says (Str ''calling'') (Some [echo_call])
                        else says (Str ''done'') None)
       [''echo.js''] echo_ok"

definition calling_message :: message where
  "calling_message = \<lparr>role = Str ''assistant'', content = Str ''calling'', msg_name = None,
                       tool_call_id = None, tool_calls = Some [echo_call]\<rparr>"

definition echo_result :: message where
  "echo_result = \<lparr>role = Str ''tool'', content = Str ''null'', msg_name = Some ''echo'',
                   tool_call_id = Some ''call_1'', tool_calls = None\<rparr>"

definition w_round_trip :: world where
  "w_round_trip =
     \<lparr>calls = [plain_request ''gpt-4o'' [system_default, user_go],
               tools_request ''gpt-4o'' [system_default, user_go] [],
               plain_request ''gpt-4o'' [user_go, calling_message, echo_result]],
      code_py = None\<rparr>"

text \<open>The entry the Conductor appends after that turn.\<close>

definition done_entry :: message where
  "done_entry = plain_message (Str ''assistant'') (Str ''done'')"

text \<open>Failures at the other places of the \<^verbatim>\<open>try\<close>: the second model call, the scan of the
  tools directory, the serialisation of the tool's result, the follow-up model call; and a
  tool that throws \<^verbatim>\<open>null\<close>.\<close>

definition second_call_fails_env :: "unit env" where
  "second_call_fails_env =
     stub_env (\<lambda>n req. if n = 0 then says (Str ''hi'') None else Inl (ModelCallError ''rate limit''))
       [] no_exec"

definition no_tools_dir_env :: "unit env" where
  "no_tools_dir_env =
     (stub_env (\<lambda>n req. says (Str ''calling'') (Some [echo_call])) [] no_exec)
       \<lparr>readdirSync := Inl (FsError ''ENOENT'')\<rparr>"

definition unserialisable_env :: "unit env" where
  "unserialisable_env = round_trip_env\<lparr>JSON_stringify := (\<lambda>j. Inl (TypeError ''cyclic''))\<rparr>"

definition follow_up_fails_env :: "unit env" where
  "follow_up_fails_env =
     stub_env (\<lambda>n req. if n < 2 then says (Str ''calling'') (Some [echo_call])
                        else Inl (ModelCallError ''rate limit''))
       [''echo.js''] echo_ok"

definition null_throw_env :: "unit env" where
  "null_throw_env =
     stub_env (\<lambda>n req. says (Str ''calling'') (Some [echo_call])) [''echo.js'']
       (\<lambda>args. Inl (ThrownValue Null))"

text \<open>The entry the Conductor appends after a fenced reply.\<close>

definition fenced_entry :: message where
  "fenced_entry = plain_message (Str ''assistant'') (Str ''```x```'')"

text \<open>What a turn appends: the messages the Responder pushed, then the Conductor's entry.\<close>

definition turn_entries :: "message list \<times> 'j agent_response \<Rightarrow> message list" where
  "turn_entries t =
     fst t @ [plain_message (response_role (snd t)) (response_content (snd t))]"

section \<open>The loop, one iteration at a time\<close>

lemma conductor_loop_done:
  "\<not> int (turnCount st) < max_turns \<Longrightarrow>
   conductor_loop env agents agentIds max_turns st w = (Inr st, w)"
  by (subst conductor_loop.simps) simp

lemma conductor_loop_not_found:
  "int (turnCount st) < max_turns \<Longrightarrow>
   find_agent agents (index_opt agentIds (agentIndex st)) = None \<Longrightarrow>
   conductor_loop env agents agentIds max_turns st w =
     (Inr (st\<lparr>messages := messages st @ [not_found_message (index_opt agentIds (agentIndex st))]\<rparr>), w)"
  by (subst conductor_loop.simps) simp

lemma conductor_loop_turn:
  "int (turnCount st) < max_turns \<Longrightarrow>
   find_agent agents (index_opt agentIds (agentIndex st)) = Some agent \<Longrightarrow>
   getCompletionFromAgent env agent (messages st) w = (Returned (Some r), ms', w') \<Longrightarrow>
   conductor_loop env agents agentIds max_turns st w =
     conductor_loop env agents agentIds max_turns
       \<lparr>messages = ms' @ [plain_message (response_role r) (response_content r)],
        turnCount = turnCount st + 1,
        agentIndex = (agentIndex st + 1) mod length agentIds\<rparr> w'"
  by (subst conductor_loop.simps) simp

lemma conductor_loop_threw:
  "int (turnCount st) < max_turns \<Longrightarrow>
   find_agent agents (index_opt agentIds (agentIndex st)) = Some agent \<Longrightarrow>
   getCompletionFromAgent env agent (messages st) w = (Threw e, ms', w') \<Longrightarrow>
   conductor_loop env agents agentIds max_turns st w = (Inl e, w')"
  by (subst conductor_loop.simps) simp

lemma conductor_loop_undefined:
  "int (turnCount st) < max_turns \<Longrightarrow>
   find_agent agents (index_opt agentIds (agentIndex st)) = Some agent \<Longrightarrow>
   getCompletionFromAgent env agent (messages st) w = (Returned None, ms', w') \<Longrightarrow>
   conductor_loop env agents agentIds max_turns st w =
     (Inl (TypeError ''Cannot read properties of undefined (reading role)''), w')"
  by (subst conductor_loop.simps) simp

lemma tool_round_trip_appends:
  "tool_round_trip env agent ms m tc w = (r, ms', w') \<Longrightarrow> prefix ms ms' \<and> r \<noteq> Inr None"
  by (auto simp: tool_round_trip_def Let_def
           split: sum.splits property.splits option.splits prod.splits)

lemma try_body_appends:
  "try_body env agent ms chat schema w = (r, ms', w') \<Longrightarrow> prefix ms ms'"
  by (auto simp: try_body_def Let_def
           split: sum.splits option.splits prod.splits if_splits list.splits
           dest: tool_round_trip_appends)

lemma responder_appends:
  "getCompletionFromAgent env agent ms w = (c, ms', w') \<Longrightarrow> prefix ms ms'"
  by (auto simp: getCompletionFromAgent_def Let_def
           split: sum.splits prod.splits dest: try_body_appends)

lemma conductor_loop_appends:
  "conductor_loop env agents agentIds N st w = (Inr st', w') \<Longrightarrow>
   prefix (messages st) (messages st')"
proof (induction k \<equiv> "nat (N - int (turnCount st))" arbitrary: st w)
  case 0
  then have "\<not> int (turnCount st) < N" by simp
  with 0 show ?case by (simp add: conductor_loop_done)
next
  case (Suc k)
  then have lt: "int (turnCount st) < N" by linarith
  show ?case
  proof (cases "find_agent agents (index_opt agentIds (agentIndex st))")
    case None
    with Suc.prems lt show ?thesis by (auto simp: conductor_loop_not_found)
  next
    case (Some agent)
    obtain c ms1 w1 where resp: "getCompletionFromAgent env agent (messages st) w = (c, ms1, w1)"
      by (metis prod_cases3)
    have pre: "prefix (messages st) ms1" using responder_appends [OF resp] .
    show ?thesis
    proof (cases c)
      case (Threw e)
      with Suc.prems lt Some resp show ?thesis by (simp add: conductor_loop_threw)
    next
      case (Returned ro)
      show ?thesis
      proof (cases ro)
        case None
        with Suc.prems lt Some resp Returned show ?thesis by (simp add: conductor_loop_undefined)
      next
        case (Some r)
        let ?st1 = "\<lparr>messages = ms1 @ [plain_message (response_role r) (response_content r)],
                     turnCount = turnCount st + 1,
                     agentIndex = (agentIndex st + 1) mod length agentIds\<rparr>"
        have step: "conductor_loop env agents agentIds N st w = conductor_loop env agents agentIds N ?st1 w1"
          using conductor_loop_turn [OF lt \<open>find_agent agents (index_opt agentIds (agentIndex st)) = Some agent\<close>]
            resp Returned Some by simp
        have k: "k = nat (N - int (turnCount ?st1))" using Suc.hyps(2) by simp
        have "prefix (messages ?st1) (messages st')"
          using Suc.hyps(1) [OF k] Suc.prems step by simp
        moreover have "prefix (messages st) (messages ?st1)" using pre by simp
        ultimately show ?thesis using prefix_order.trans by blast
      qed
    qed
  qed
qed

lemma find_agent_member:
  "find_agent agents i = Some a \<Longrightarrow> a \<in> set agents"
  by (auto simp: find_agent_def find_Some_iff split: option.splits)


lemma replay_entries:
  "replay env agents agentIds turns (ms, i, w) = Some (ms', i', w') \<Longrightarrow>
   ms' = ms @ concat (map turn_entries turns)"
proof (induction turns arbitrary: ms i w)
  case Nil
  then show ?case by simp
next
  case (Cons t turns)
  obtain pushed r where t: "t = (pushed, r)" by (cases t)
  from Cons.prems t obtain agent c ms1 wa where
    "getCompletionFromAgent env agent ms w = (c, ms1, wa)" "ms1 = ms @ pushed"
    and rest: "replay env agents agentIds turns
       (ms1 @ [plain_message (response_role r) (response_content r)],
        (i + 1) mod length agentIds, wa) = Some (ms', i', w')"
    by (auto split: option.splits prod.splits if_splits)
  from Cons.IH [OF rest] \<open>ms1 = ms @ pushed\<close> t
  show ?case by (simp add: turn_entries_def)
qed

lemma conductor_loop_turns:
  assumes ne: "agentIds \<noteq> []"
    and ids: "\<forall>i \<in> set agentIds. find_agent agents (Some i) \<noteq> None"
    and returns: "\<forall>a \<in> set agents. \<forall>ms w.
           \<exists>r ms' w'. getCompletionFromAgent (env :: 'j env) a ms w = (Returned (Some r), ms', w')"
  shows "agentIndex st < length agentIds \<Longrightarrow>
         \<exists>(turns :: (message list \<times> 'j agent_response) list) st' w'.
            length turns = nat N - turnCount st
            \<and> conductor_loop env agents agentIds N st w = (Inr st', w')
            \<and> int (turnCount st') = max N (int (turnCount st))
            \<and> replay env agents agentIds turns (messages st, agentIndex st, w) =
                Some (messages st', agentIndex st', w')"
proof (induction k \<equiv> "nat (N - int (turnCount st))" arbitrary: st w)
  case 0
  then have "\<not> int (turnCount st) < N" by simp
  moreover from this have "nat N - turnCount st = 0" by linarith
  ultimately show ?case by (simp add: conductor_loop_done)
next
  case (Suc k)
  then have lt: "int (turnCount st) < N" by linarith
  from Suc.prems have "index_opt agentIds (agentIndex st) = Some (agentIds ! agentIndex st)"
    by (simp add: index_opt_def)
  moreover have "agentIds ! agentIndex st \<in> set agentIds" using Suc.prems by simp
  ultimately obtain agent where found: "find_agent agents (index_opt agentIds (agentIndex st)) = Some agent"
    using ids by fastforce
  from returns find_agent_member [OF found]
  obtain r ms1 wa where resp: "getCompletionFromAgent env agent (messages st) w = (Returned (Some r), ms1, wa)"
    by blast
  from responder_appends [OF resp] obtain pushed where pushed: "ms1 = messages st @ pushed"
    by (auto simp: prefix_def)
  let ?st1 = "\<lparr>messages = ms1 @ [plain_message (response_role r) (response_content r)],
               turnCount = turnCount st + 1,
               agentIndex = (agentIndex st + 1) mod length agentIds\<rparr>"
  have step: "conductor_loop env agents agentIds N st w = conductor_loop env agents agentIds N ?st1 wa"
    using conductor_loop_turn [OF lt found resp] .
  have k: "k = nat (N - int (turnCount ?st1))" using Suc.hyps(2) by simp
  have idx: "agentIndex ?st1 < length agentIds" using ne by simp
  from Suc.hyps(1) [OF k idx, of wa]
  obtain turns :: "(message list \<times> 'j agent_response) list" and st' w' where len: "length turns = nat N - turnCount ?st1"
    and fin: "conductor_loop env agents agentIds N ?st1 wa = (Inr st', w')"
    and tc: "int (turnCount st') = max N (int (turnCount ?st1))"
    and rp: "replay env agents agentIds turns (messages ?st1, agentIndex ?st1, wa) =
                Some (messages st', agentIndex st', w')"
    by blast
  have "length ((pushed, r) # turns) = nat N - turnCount st" using len lt by simp
  moreover have "int (turnCount st') = max N (int (turnCount st))" using tc lt by simp
  moreover have "replay env agents agentIds ((pushed, r) # turns) (messages st, agentIndex st, w) =
                Some (messages st', agentIndex st', w')"
    using rp found resp pushed by simp
  ultimately show ?case using step fin by metis
qed

section \<open>Evaluating the model\<close>

lemmas responder_defs =
  getCompletionFromAgent_def try_body_def tool_round_trip_def call_model_def
  parse_arguments_def plain_request_def tools_request_def
  content_text_def first_message_def system_message_def fence_def startsWith_def
  extract_code_def substring_def getTools_def get_property_def object_prototype_keys_def
  endsWith_def slice_off3_def Let_def

lemmas example_defs =
  stub_env_def says_def no_exec_def w0_def agentA_def agentB_def createAgent_def fenced_env_def down_env_def
  failing_tool_env_def unknown_tool_env_def two_replies_env_def round_trip_env_def
  second_call_fails_env_def no_tools_dir_env_def unserialisable_env_def follow_up_fails_env_def
  null_throw_env_def echo_call_def nosuch_call_def echo_ok_def

lemma fenced_turn:
  "getCompletionFromAgent fenced_env agentA ms w =
     (Returned (Some (AssistantText (Str ''```x```''))), ms,
      w\<lparr>calls := calls w @ [plain_request ''gpt-4o'' (system_message agentA # ms)],
        code_py := Some ''x''\<rparr>)"
  by (simp add: responder_defs example_defs)

lemma down_turn:
  "getCompletionFromAgent down_env agentA [user_go] w0 =
     (Returned (Some (ErrorObject ''OpenAI API failed'' (Str ''connection refused''))), [user_go], w_down)"
  by (simp add: responder_defs example_defs down_env_def w_down_def)

lemma found_agentA:
  "find_agent [agentA] (index_opt [1] (agentIndex (initial_state ms))) = Some agentA"
  by (simp add: find_agent_def index_opt_def initial_state_def agentA_def createAgent_def)

lemma failing_tool_turn:
  "getCompletionFromAgent failing_tool_env agentA [user_go] w0 =
     (Returned (Some (ErrorObject ''OpenAI API failed'' (Str ''boom''))), [user_go], w_twice)"
  by (simp add: responder_defs example_defs failing_tool_env_def echo_call_def w_twice_def
        system_default_def)

lemma hi_turn:
  "getCompletionFromAgent two_replies_env agentA [user_go] w0 =
     (Returned (Some (AssistantText (Str ''```hi```''))), [user_go], w_hi)"
  by (simp add: responder_defs example_defs two_replies_env_def w_hi_def system_default_def)

lemma hello_turn:
  "getCompletionFromAgent two_replies_env agentB [user_go, hi_message] w_hi =
     (Returned (Some (AssistantText (Str ''```hello```''))), [user_go, hi_message], w_hello)"
  by (simp add: responder_defs example_defs two_replies_env_def w_hi_def w_hello_def system_default_def)

lemma two_agent_loop:
  "conductor_loop two_replies_env [agentA, agentB] [1, 2] 2 (initial_state [user_go]) w0 =
     (Inr \<lparr>messages = [user_go, hi_message, hello_message], turnCount = 2, agentIndex = 0\<rparr>, w_hello)"
proof -
  have a: "find_agent [agentA, agentB] (index_opt [1, 2] 0) = Some agentA"
    by (simp add: find_agent_def index_opt_def agentA_def agentB_def createAgent_def)
  have b: "find_agent [agentA, agentB] (index_opt [1, 2] (Suc 0)) = Some agentB"
    by (simp add: find_agent_def index_opt_def agentA_def agentB_def createAgent_def)
  have "conductor_loop two_replies_env [agentA, agentB] [1, 2] 2 (initial_state [user_go]) w0 =
        conductor_loop two_replies_env [agentA, agentB] [1, 2] 2
          \<lparr>messages = [user_go, hi_message], turnCount = 1, agentIndex = 1\<rparr> w_hi"
    by (subst conductor_loop.simps)
       (simp add: initial_state_def a hi_turn hi_message_def plain_message_def)
  also have "\<dots> = conductor_loop two_replies_env [agentA, agentB] [1, 2] 2
          \<lparr>messages = [user_go, hi_message, hello_message], turnCount = 2, agentIndex = 0\<rparr> w_hello"
    by (subst conductor_loop.simps)
       (simp add: b hello_turn hello_message_def plain_message_def numeral_2_eq_2 [symmetric])
  also have "\<dots> = (Inr \<lparr>messages = [user_go, hi_message, hello_message], turnCount = 2, agentIndex = 0\<rparr>, w_hello)"
    by (simp add: conductor_loop_done)
  finally show ?thesis .
qed

lemma some_named_duplicate:
  "\<forall>t \<in> set ts. \<exists>m. t = ToolModule m \<Longrightarrow>
   \<exists>m. ToolModule m \<in> set ts \<and> details_name (details m) = Some toolName \<Longrightarrow>
   some_named ts toolName = Inr True"
  by (induction ts toolName rule: some_named.induct) auto

lemma fenced_loop:
  "agentIndex st = 0 \<Longrightarrow>
   \<exists>w'. conductor_loop fenced_env [agentA] [1] N st w =
     (Inr \<lparr>messages = messages st @ replicate (nat N - turnCount st) fenced_entry,
           turnCount = max (turnCount st) (nat N), agentIndex = 0\<rparr>, w')"
proof (induction k \<equiv> "nat (N - int (turnCount st))" arbitrary: st w)
  case 0
  then have "\<not> int (turnCount st) < N" by simp
  moreover from this have "nat N - turnCount st = 0" "max (turnCount st) (nat N) = turnCount st"
    by linarith+
  ultimately show ?case using 0 by (simp add: conductor_loop_done)
next
  case (Suc k)
  then have lt: "int (turnCount st) < N" by linarith
  have found: "find_agent [agentA] (index_opt [1] (agentIndex st)) = Some agentA"
    using Suc.prems by (simp add: find_agent_def index_opt_def agentA_def createAgent_def)
  let ?st1 = "\<lparr>messages = messages st @ [plain_message (response_role (AssistantText (Str ''```x```'') :: unit agent_response))
                   (response_content (AssistantText (Str ''```x```'') :: unit agent_response))],
               turnCount = turnCount st + 1,
               agentIndex = (agentIndex st + 1) mod length [1::int]\<rparr>"
  have step: "conductor_loop fenced_env [agentA] [1] N st w =
              conductor_loop fenced_env [agentA] [1] N ?st1
                (w\<lparr>calls := calls w @ [plain_request ''gpt-4o'' (system_message agentA # messages st)],
                   code_py := Some ''x''\<rparr>)"
    using conductor_loop_turn [OF lt found fenced_turn] .
  have k: "k = nat (N - int (turnCount ?st1))" using Suc.hyps(2) by simp
  have idx: "agentIndex ?st1 = 0" by simp
  from Suc.hyps(1) [OF k idx]
  obtain w' where "conductor_loop fenced_env [agentA] [1] N ?st1
                (w\<lparr>calls := calls w @ [plain_request ''gpt-4o'' (system_message agentA # messages st)],
                   code_py := Some ''x''\<rparr>) =
     (Inr \<lparr>messages = messages ?st1 @ replicate (nat N - turnCount ?st1) fenced_entry,
           turnCount = max (turnCount ?st1) (nat N), agentIndex = 0\<rparr>, w')"
    by blast
  moreover have "messages ?st1 @ replicate (nat N - turnCount ?st1) fenced_entry =
                 messages st @ replicate (nat N - turnCount st) fenced_entry"
  proof -
    have "nat N - turnCount st = Suc (nat N - turnCount ?st1)" using lt by simp
    then show ?thesis by (simp add: fenced_entry_def)
  qed
  moreover have "max (turnCount ?st1) (nat N) = max (turnCount st) (nat N)" using lt by simp
  ultimately show ?case using step by simp
qed

lemma one_down_turn:
  "conductor_loop down_env [agentA] [1] 1 (initial_state [user_go]) w0 =
     (Inr \<lparr>messages = [user_go, plain_message Undefined Undefined],
           turnCount = 1, agentIndex = 0\<rparr>, w_down)"
proof -
  have lt: "int (turnCount (initial_state [user_go])) < 1" by (simp add: initial_state_def)
  have resp: "getCompletionFromAgent down_env agentA (messages (initial_state [user_go])) w0 =
       (Returned (Some (ErrorObject ''OpenAI API failed'' (Str ''connection refused''))), [user_go], w_down)"
    by (simp add: initial_state_def down_turn)
  show ?thesis
    using conductor_loop_turn [OF lt found_agentA resp]
    by (simp add: conductor_loop_done initial_state_def)
qed

section \<open>The places of a turn where something can fail\<close>

lemmas request_defs =
  first_request_def second_request_def tool_result_message_def follow_up_request_def
  after_calls_def

lemma build_schema_raises:
  "build_schema ts = Inl e \<Longrightarrow> UndefinedEntry \<in> set ts"
  by (induction ts rule: build_schema.induct) (auto split: sum.splits)

lemma error_message_raises:
  "error_message err = Inl e \<Longrightarrow>
   (err = ThrownValue Null \<or> err = ThrownValue Undefined)"
  by (erule error_message.elims) auto

lemma responder_throws:
  assumes "getCompletionFromAgent env agent ms w = (Threw e, ms', w')"
  shows "UndefinedEntry \<in> set (tools agent)
         \<or> error_message (ThrownValue Null) = Inl e
         \<or> error_message (ThrownValue Undefined) = Inl e"
proof (cases "build_schema (tools agent)")
  case (Inl a)
  then show ?thesis using build_schema_raises by blast
next
  case (Inr schema)
  obtain x ms1 wa where tb: "try_body env agent ms (system_message agent # ms) schema w = (x, ms1, wa)"
    by (metis prod_cases3)
  show ?thesis
  proof (cases x)
    case (Inl err)
    with assms Inr tb have "error_message err = Inl e"
      by (auto simp: getCompletionFromAgent_def split: sum.splits)
    with error_message_raises [OF this] show ?thesis by auto
  next
    case (Inr r)
    with assms \<open>build_schema (tools agent) = Inr schema\<close> tb show ?thesis
      by (simp add: getCompletionFromAgent_def)
  qed
qed

lemma first_call_fails:
  assumes "tools agent = []" and "error_message e = Inr d"
    and "create env (length (calls w)) (first_request agent ms) = Inl e"
  shows "getCompletionFromAgent env agent ms w =
           (Returned (Some (ErrorObject ''OpenAI API failed'' d)), ms,
            after_calls w [first_request agent ms])"
  using assms
  by (simp add: getCompletionFromAgent_def try_body_def call_model_def request_defs Let_def)

lemma second_call_fails:
  assumes "tools agent = []" and "error_message e = Inr d"
    and "create env (length (calls w)) (first_request agent ms) = Inr response"
    and "first_message response = Inr (Some message)"
    and "content message = Str body"
    and "\<not> includes_str body fence"
    and "create env (Suc (length (calls w))) (second_request agent ms) = Inl e"
  shows "getCompletionFromAgent env agent ms w =
           (Returned (Some (ErrorObject ''OpenAI API failed'' d)), ms,
            after_calls w [first_request agent ms, second_request agent ms])"
  using assms
  by (simp add: getCompletionFromAgent_def try_body_def call_model_def content_text_def
        request_defs Let_def)

lemma tool_requested:
  assumes "tools agent = []"
    and "create env (length (calls w)) (first_request agent ms) = Inr response"
    and "first_message response = Inr (Some message)"
    and "content message = Str body"
    and "\<not> includes_str body fence"
    and "create env (Suc (length (calls w))) (second_request agent ms) = Inr response2"
    and "tool_calls message = Some (tc # rest)"
  shows "try_body env agent ms (system_message agent # ms) [] w =
           tool_round_trip env agent ms message tc
             (after_calls w [first_request agent ms, second_request agent ms])"
  using assms
  by (simp add: try_body_def call_model_def content_text_def request_defs)

lemma caught:
  assumes "tools agent = []" and "error_message e = Inr d"
    and "try_body env agent ms (system_message agent # ms) [] w = (Inl e, ms1, wa)"
  shows "getCompletionFromAgent env agent ms w =
           (Returned (Some (ErrorObject ''OpenAI API failed'' d)), ms1, wa)"
  using assms by (simp add: getCompletionFromAgent_def Let_def)

lemma discovery_fails:
  "getTools env = Inl e \<Longrightarrow> tool_round_trip env agent ms message tc w = (Inl e, ms, w)"
  by (simp add: tool_round_trip_def Let_def)

lemma execute_fails:
  "getTools env = Inr allTools \<Longrightarrow> allTools (fn_name tc) = Some tool \<Longrightarrow>
   Object_values env (parse_arguments env tc) = Inr args \<Longrightarrow> execute tool args = Inl e \<Longrightarrow>
   tool_round_trip env agent ms message tc w = (Inl e, ms, w)"
  by (simp add: tool_round_trip_def Let_def get_property_def)

lemma stringify_fails:
  "getTools env = Inr allTools \<Longrightarrow> allTools (fn_name tc) = Some tool \<Longrightarrow>
   Object_values env (parse_arguments env tc) = Inr args \<Longrightarrow> execute tool args = Inr result \<Longrightarrow>
   JSON_stringify env result = Inl e \<Longrightarrow>
   tool_round_trip env agent ms message tc w = (Inl e, ms, w)"
  by (simp add: tool_round_trip_def Let_def get_property_def)

lemma follow_up_fails:
  "getTools env = Inr allTools \<Longrightarrow> allTools (fn_name tc) = Some tool \<Longrightarrow>
   Object_values env (parse_arguments env tc) = Inr args \<Longrightarrow> execute tool args = Inr result \<Longrightarrow>
   JSON_stringify env result = Inr text \<Longrightarrow>
   create env (length (calls w)) (follow_up_request agent ms message tc text) = Inl e \<Longrightarrow>
   tool_round_trip env agent ms message tc w =
     (Inl e, ms @ [message, tool_result_message tc text],
      after_calls w [follow_up_request agent ms message tc text])"
  by (simp add: tool_round_trip_def Let_def get_property_def call_model_def request_defs)

lemma follow_up_answers:
  "getTools env = Inr allTools \<Longrightarrow> allTools (fn_name tc) = Some tool \<Longrightarrow>
   Object_values env (parse_arguments env tc) = Inr args \<Longrightarrow> execute tool args = Inr result \<Longrightarrow>
   JSON_stringify env result = Inr text \<Longrightarrow>
   create env (length (calls w)) (follow_up_request agent ms message tc text) = Inr final_response \<Longrightarrow>
   first_message final_response = Inr (Some final_message) \<Longrightarrow>
   tool_round_trip env agent ms message tc w =
     (Inr (Some (ToolSummary (fn_name tc) (parse_arguments env tc) (model agent)
                   (content final_message) (ms @ [message, tool_result_message tc text]))),
      ms @ [message, tool_result_message tc text],
      after_calls w [follow_up_request agent ms message tc text])"
  by (simp add: tool_round_trip_def Let_def get_property_def call_model_def request_defs)

lemma responder_discovery_fails:
  assumes "tools agent = []" and "error_message e = Inr d"
    and "create env (length (calls w)) (first_request agent ms) = Inr response"
    and "first_message response = Inr (Some message)"
    and "content message = Str body"
    and "\<not> includes_str body fence"
    and "create env (Suc (length (calls w))) (second_request agent ms) = Inr response2"
    and "tool_calls message = Some (tc # rest)"
    and "getTools env = Inl e"
  shows "getCompletionFromAgent env agent ms w =
           (Returned (Some (ErrorObject ''OpenAI API failed'' d)), ms,
            after_calls w [first_request agent ms, second_request agent ms])"
proof -
  note tb = tool_requested [OF assms(1,3-8)]
  show ?thesis
    by (rule caught [OF assms(1,2)]) (simp add: tb discovery_fails [OF assms(9)])
qed

lemma responder_execute_fails:
  assumes "tools agent = []" and "error_message e = Inr d"
    and "create env (length (calls w)) (first_request agent ms) = Inr response"
    and "first_message response = Inr (Some message)"
    and "content message = Str body"
    and "\<not> includes_str body fence"
    and "create env (Suc (length (calls w))) (second_request agent ms) = Inr response2"
    and "tool_calls message = Some (tc # rest)"
    and "getTools env = Inr allTools"
    and "allTools (fn_name tc) = Some tool"
    and "Object_values env (parse_arguments env tc) = Inr args"
    and "execute tool args = Inl e"
  shows "getCompletionFromAgent env agent ms w =
           (Returned (Some (ErrorObject ''OpenAI API failed'' d)), ms,
            after_calls w [first_request agent ms, second_request agent ms])"
proof -
  note tb = tool_requested [OF assms(1,3-8)]
  show ?thesis
    by (rule caught [OF assms(1,2)]) (simp add: tb execute_fails [OF assms(9-12)])
qed

lemma responder_stringify_fails:
  assumes "tools agent = []" and "error_message e = Inr d"
    and "create env (length (calls w)) (first_request agent ms) = Inr response"
    and "first_message response = Inr (Some message)"
    and "content message = Str body"
    and "\<not> includes_str body fence"
    and "create env (Suc (length (calls w))) (second_request agent ms) = Inr response2"
    and "tool_calls message = Some (tc # rest)"
    and "getTools env = Inr allTools"
    and "allTools (fn_name tc) = Some tool"
    and "Object_values env (parse_arguments env tc) = Inr args"
    and "execute tool args = Inr result"
    and "JSON_stringify env result = Inl e"
  shows "getCompletionFromAgent env agent ms w =
           (Returned (Some (ErrorObject ''OpenAI API failed'' d)), ms,
            after_calls w [first_request agent ms, second_request agent ms])"
proof -
  note tb = tool_requested [OF assms(1,3-8)]
  show ?thesis
    by (rule caught [OF assms(1,2)]) (simp add: tb stringify_fails [OF assms(9-13)])
qed

lemma responder_follow_up_fails:
  assumes "tools agent = []" and "error_message e = Inr d"
    and "create env (length (calls w)) (first_request agent ms) = Inr response"
    and "first_message response = Inr (Some message)"
    and "content message = Str body"
    and "\<not> includes_str body fence"
    and "create env (Suc (length (calls w))) (second_request agent ms) = Inr response2"
    and "tool_calls message = Some (tc # rest)"
    and "getTools env = Inr allTools"
    and "allTools (fn_name tc) = Some tool"
    and "Object_values env (parse_arguments env tc) = Inr args"
    and "execute tool args = Inr result"
    and "JSON_stringify env result = Inr serialised"
    and "create env (Suc (Suc (length (calls w))))
           (follow_up_request agent ms message tc serialised) = Inl e"
  shows "getCompletionFromAgent env agent ms w =
           (Returned (Some (ErrorObject ''OpenAI API failed'' d)),
            ms @ [message, tool_result_message tc serialised],
            after_calls w [first_request agent ms, second_request agent ms,
                           follow_up_request agent ms message tc serialised])"
proof -
  note tb = tool_requested [OF assms(1,3-8)]
  have "create env (length (calls (after_calls w [first_request agent ms, second_request agent ms])))
           (follow_up_request agent ms message tc serialised) = Inl e"
    using assms(14) by (simp add: after_calls_def)
  from follow_up_fails [OF assms(9-13) this]
  have tr: "tool_round_trip env agent ms message tc
              (after_calls w [first_request agent ms, second_request agent ms]) =
            (Inl e, ms @ [message, tool_result_message tc serialised],
             after_calls w [first_request agent ms, second_request agent ms,
                            follow_up_request agent ms message tc serialised])"
    by (simp add: after_calls_def)
  show ?thesis
    by (rule caught [OF assms(1,2)]) (simp add: tb tr)
qed

lemma responder_round_trip:
  assumes "tools agent = []"
    and "create env (length (calls w)) (first_request agent ms) = Inr response"
    and "first_message response = Inr (Some message)"
    and "content message = Str body"
    and "\<not> includes_str body fence"
    and "create env (Suc (length (calls w))) (second_request agent ms) = Inr response2"
    and "tool_calls message = Some (tc # rest)"
    and "getTools env = Inr allTools"
    and "allTools (fn_name tc) = Some tool"
    and "Object_values env (parse_arguments env tc) = Inr args"
    and "execute tool args = Inr result"
    and "JSON_stringify env result = Inr serialised"
    and "create env (Suc (Suc (length (calls w))))
           (follow_up_request agent ms message tc serialised) = Inr final_response"
    and "first_message final_response = Inr (Some final_message)"
  shows "getCompletionFromAgent env agent ms w =
           (Returned (Some (ToolSummary (fn_name tc) (parse_arguments env tc) (model agent)
                   (content final_message) (ms @ [message, tool_result_message tc serialised]))),
            ms @ [message, tool_result_message tc serialised],
            after_calls w [first_request agent ms, second_request agent ms,
                           follow_up_request agent ms message tc serialised])"
proof -
  note tb = tool_requested [OF assms(1-7)]
  have "create env (length (calls (after_calls w [first_request agent ms, second_request agent ms])))
           (follow_up_request agent ms message tc serialised) = Inr final_response"
    using assms(13) by (simp add: after_calls_def)
  from follow_up_answers [OF assms(8-12) this assms(14)]
  have tr: "tool_round_trip env agent ms message tc
              (after_calls w [first_request agent ms, second_request agent ms]) =
            (Inr (Some (ToolSummary (fn_name tc) (parse_arguments env tc) (model agent)
                   (content final_message) (ms @ [message, tool_result_message tc serialised]))),
             ms @ [message, tool_result_message tc serialised],
             after_calls w [first_request agent ms, second_request agent ms,
                            follow_up_request agent ms message tc serialised])"
    by (simp add: after_calls_def)
  show ?thesis
    using assms(1) by (simp add: getCompletionFromAgent_def Let_def tb tr)
qed

lemma round_trip_turn:
  "getCompletionFromAgent round_trip_env agentA [user_go] w0 =
     (Returned (Some (ToolSummary ''echo'' () ''gpt-4o'' (Str ''done'')
                        [user_go, calling_message, echo_result])),
      [user_go, calling_message, echo_result], w_round_trip)"
  by (simp add: responder_defs example_defs w_round_trip_def system_default_def
        calling_message_def echo_result_def)

lemma one_round_trip:
  "conductor_loop round_trip_env [agentA] [1] 1 (initial_state [user_go]) w0 =
     (Inr \<lparr>messages = [user_go, calling_message, echo_result, done_entry],
           turnCount = 1, agentIndex = 0\<rparr>, w_round_trip)"
proof -
  have lt: "int (turnCount (initial_state [user_go])) < 1" by (simp add: initial_state_def)
  have resp: "getCompletionFromAgent round_trip_env agentA (messages (initial_state [user_go])) w0 =
     (Returned (Some (ToolSummary ''echo'' () ''gpt-4o'' (Str ''done'')
                        [user_go, calling_message, echo_result])),
      [user_go, calling_message, echo_result], w_round_trip)"
    by (simp add: initial_state_def round_trip_turn)
  show ?thesis
    using conductor_loop_turn [OF lt found_agentA resp]
    by (simp add: conductor_loop_done initial_state_def done_entry_def)
qed

lemma one_round_trip_run:
  "runMultiAgentConductor round_trip_env [agentA] [1] [user_go] (Some 1) w0 =
     (Inr \<lparr>conv_messages = [user_go, calling_message, echo_result, done_entry]\<rparr>, w_round_trip)"
  by (simp add: runMultiAgentConductor_def one_round_trip)



lemma two_replies_turn:
  "\<forall>a \<in> set [agentA, agentB]. \<forall>ts v.
     \<exists>r ts' v'. getCompletionFromAgent two_replies_env a ts v = (Returned (Some r), ts', v')"
  by (simp add: responder_defs example_defs)

lemma two_agent_replay:
  "replay two_replies_env [agentA, agentB] [1, 2]
     [([], AssistantText (Str ''```hi```'')), ([], AssistantText (Str ''```hello```''))]
     ([user_go], 0, w0) =
   Some ([user_go, hi_message, hello_message], 0, w_hello)"
proof -
  have a: "find_agent [agentA, agentB] (index_opt [1, 2] 0) = Some agentA"
    by (simp add: find_agent_def index_opt_def agentA_def agentB_def createAgent_def)
  have b: "find_agent [agentA, agentB] (index_opt [1, 2] (Suc 0)) = Some agentB"
    by (simp add: find_agent_def index_opt_def agentA_def agentB_def createAgent_def)
  have hi: "plain_message (Str ''assistant'') (Str ''```hi```'') = hi_message"
    by (simp add: hi_message_def plain_message_def)
  have hello: "plain_message (Str ''assistant'') (Str ''```hello```'') = hello_message"
    by (simp add: hello_message_def plain_message_def)
  show ?thesis
    by (simp add: a b hi_turn hello_turn hi hello)
qed

lemma add_tool_rejects_duplicate:
  assumes "agentId \<noteq> 0" and "toolName \<noteq> []"
    and "find_agent agents (Some agentId) = Some agent"
    and "\<forall>t \<in> set (tools agent). \<exists>m. t = ToolModule m"
    and "\<exists>m. ToolModule m \<in> set (tools agent) \<and> details_name (details m) = Some toolName"
  shows "add_tool env agentId toolName agents =
           (BadRequest ''Tool with this name is already assigned.'', agents)"
proof -
  have "some_named (tools agent) toolName = Inr True"
    using assms(4,5) by (rule some_named_duplicate)
  then show ?thesis using assms(1-3) by (simp add: add_tool_def)
qed

section \<open>The claims\<close>

text \<open>
  Claim C1: a run with \<open>maxTurns = N \<ge> 0\<close> whose agent ids all exist performs exactly \<open>N\<close>
  turns and appends one assistant message per turn; with \<open>maxTurns = 0\<close> it returns the
  opening message unchanged, also when started through the entry point that accepts
  \<^verbatim>\<open>{ agentIds, userInput, maxTurns }\<close>.

  Through the entry point, \<^verbatim>\<open>maxTurns || 6\<close> turns a budget of 0 into 6 turns; and a turn whose
  model call fails appends an entry that is no assistant message.
\<close>

theorem C1_counterexample:
  "fst (start_conversation fenced_env [agentA]
          \<lparr>agentIds_field = Some [1], userInput = Some ''go'', maxTurns = Some 0\<rparr> w0) =
     Conversation \<lparr>conv_messages =
       [user_go, fenced_entry, fenced_entry, fenced_entry, fenced_entry, fenced_entry, fenced_entry]\<rparr>
   \<and> fst (runMultiAgentConductor down_env [agentA] [1] [user_go] (Some 1) w0) =
     Inr \<lparr>conv_messages = [user_go, \<lparr>role = Undefined, content = Undefined, msg_name = None,
                                       tool_call_id = None, tool_calls = None\<rparr>]\<rparr>"
proof -
  have idx: "agentIndex (initial_state [user_go]) = 0" by (simp add: initial_state_def)
  from fenced_loop [OF idx, of 6 w0]
  obtain w' where "conductor_loop fenced_env [agentA] [1] 6 (initial_state [user_go]) w0 =
     (Inr \<lparr>messages = [user_go] @ replicate 6 fenced_entry, turnCount = 6, agentIndex = 0\<rparr>, w')"
    by (auto simp: initial_state_def)
  then have "fst (start_conversation fenced_env [agentA]
          \<lparr>agentIds_field = Some [1], userInput = Some ''go'', maxTurns = Some 0\<rparr> w0) =
     Conversation \<lparr>conv_messages = [user_go] @ replicate 6 fenced_entry\<rparr>"
    by (simp add: start_conversation_def runMultiAgentConductor_def user_go_def)
  moreover have "replicate 6 fenced_entry =
      [fenced_entry, fenced_entry, fenced_entry, fenced_entry, fenced_entry, fenced_entry]"
    by (simp add: numeral_eq_Suc)
  moreover have "fst (runMultiAgentConductor down_env [agentA] [1] [user_go] (Some 1) w0) =
     Inr \<lparr>conv_messages = [user_go, plain_message Undefined Undefined]\<rparr>"
    by (simp add: runMultiAgentConductor_def one_down_turn)
  ultimately show ?thesis by (simp add: plain_message_def)
qed

text \<open>
  Claim C1 as the code has it, for \<^verbatim>\<open>runMultiAgentConductor\<close> with a non-empty id list whose
  ids all exist and a Responder that returns an object whenever it is called for a stored
  agent (it neither raises nor runs off its end): the run returns after exactly \<open>N\<close> turns,
  and there is a record of \<open>N\<close> turns that \<open>replay\<close> accepts from the opening transcript,
  index 0 and the initial world and that ends in the run's transcript, index and world. So
  turn \<open>k\<close> calls the Responder for the agent at position \<open>k\<close> modulo the length of the id
  list, on the transcript so far, and appends what that call pushed followed by one entry
  holding the role and the content of what it returned. With \<open>N = 0\<close> the opening messages
  and the world come back unchanged; and the entry point runs exactly \<open>N\<close> turns for a
  \<open>maxTurns\<close> of \<open>N > 0\<close>.
\<close>

theorem C1_turns_performed:
  assumes "agentIds \<noteq> []"
    and "\<forall>i \<in> set agentIds. find_agent agents (Some i) \<noteq> None"
    and "\<forall>a \<in> set agents. \<forall>ts v.
           \<exists>r ts' v'. getCompletionFromAgent (env :: 'j env) a ts v = (Returned (Some r), ts', v')"
    and "0 \<le> N"
  shows "(\<exists>(turns :: (message list \<times> 'j agent_response) list) st' w'.
            length turns = nat N
            \<and> conductor_loop env agents agentIds N (initial_state ms) w = (Inr st', w')
            \<and> turnCount st' = nat N
            \<and> replay env agents agentIds turns (ms, 0, w) =
                Some (messages st', agentIndex st', w')
            \<and> messages st' = ms @ concat (map turn_entries turns)
            \<and> runMultiAgentConductor env agents agentIds ms (Some N) w =
                (Inr \<lparr>conv_messages = messages st'\<rparr>, w')
            \<and> (N = 0 \<longrightarrow> messages st' = ms \<and> w' = w))
       \<and> (0 < N \<longrightarrow>
           (\<exists>(turns :: (message list \<times> 'j agent_response) list) ms' i' w'.
              length turns = nat N
              \<and> replay env agents agentIds turns ([plain_message (Str ''user'') (Str u)], 0, w) =
                  Some (ms', i', w')
              \<and> ms' = plain_message (Str ''user'') (Str u) # concat (map turn_entries turns)
              \<and> start_conversation env agents
                   \<lparr>agentIds_field = Some agentIds, userInput = Some u, maxTurns = Some N\<rparr> w =
                  (Conversation \<lparr>conv_messages = ms'\<rparr>, w')))"
proof -
  have run: "\<exists>(turns :: (message list \<times> 'j agent_response) list) st' w'.
            length turns = nat N
            \<and> conductor_loop env agents agentIds N (initial_state ms0) w = (Inr st', w')
            \<and> turnCount st' = nat N
            \<and> replay env agents agentIds turns (ms0, 0, w) =
                Some (messages st', agentIndex st', w')
            \<and> messages st' = ms0 @ concat (map turn_entries turns)" for ms0
  proof -
    have idx: "agentIndex (initial_state ms0) < length agentIds"
      using assms(1) by (simp add: initial_state_def)
    from conductor_loop_turns [OF assms(1-3) idx, of N w]
    obtain turns :: "(message list \<times> 'j agent_response) list" and st' w'
      where t: "length turns = nat N - turnCount (initial_state ms0)"
        "conductor_loop env agents agentIds N (initial_state ms0) w = (Inr st', w')"
        "int (turnCount st') = max N (int (turnCount (initial_state ms0)))"
        "replay env agents agentIds turns
           (messages (initial_state ms0), agentIndex (initial_state ms0), w) =
         Some (messages st', agentIndex st', w')"
      by blast
    from t(4) have rp: "replay env agents agentIds turns (ms0, 0, w) =
         Some (messages st', agentIndex st', w')"
      by (simp add: initial_state_def)
    from replay_entries [OF rp] t(1-3) rp assms(4) show ?thesis
      by (intro exI [of _ turns] exI [of _ st'] exI [of _ w']) (auto simp: initial_state_def)
  qed
  from run [of ms]
  obtain turns :: "(message list \<times> 'j agent_response) list" and st' w'
    where a: "length turns = nat N"
      "conductor_loop env agents agentIds N (initial_state ms) w = (Inr st', w')"
      "turnCount st' = nat N"
      "replay env agents agentIds turns (ms, 0, w) = Some (messages st', agentIndex st', w')"
      "messages st' = ms @ concat (map turn_entries turns)"
    by blast
  have zero: "messages st' = ms \<and> w' = w" if "N = 0"
  proof -
    from that have "\<not> int (turnCount (initial_state ms)) < N" by simp
    from conductor_loop_done [OF this, of env agents agentIds w]
    have "conductor_loop env agents agentIds N (initial_state ms) w = (Inr (initial_state ms), w)" .
    with a(2) have "st' = initial_state ms" "w' = w" by simp_all
    then show ?thesis by (simp add: initial_state_def)
  qed
  have first: "\<exists>(turns :: (message list \<times> 'j agent_response) list) st' w'.
            length turns = nat N
            \<and> conductor_loop env agents agentIds N (initial_state ms) w = (Inr st', w')
            \<and> turnCount st' = nat N
            \<and> replay env agents agentIds turns (ms, 0, w) =
                Some (messages st', agentIndex st', w')
            \<and> messages st' = ms @ concat (map turn_entries turns)
            \<and> runMultiAgentConductor env agents agentIds ms (Some N) w =
                (Inr \<lparr>conv_messages = messages st'\<rparr>, w')
            \<and> (N = 0 \<longrightarrow> messages st' = ms \<and> w' = w)"
    using a zero by (intro exI [of _ turns] exI [of _ st'] exI [of _ w'])
               (simp add: runMultiAgentConductor_def)
  have second: "\<exists>(turns :: (message list \<times> 'j agent_response) list) ms' i' w'.
              length turns = nat N
              \<and> replay env agents agentIds turns ([plain_message (Str ''user'') (Str u)], 0, w) =
                  Some (ms', i', w')
              \<and> ms' = plain_message (Str ''user'') (Str u) # concat (map turn_entries turns)
              \<and> start_conversation env agents
                   \<lparr>agentIds_field = Some agentIds, userInput = Some u, maxTurns = Some N\<rparr> w =
                  (Conversation \<lparr>conv_messages = ms'\<rparr>, w')"
    if pos: "0 < N"
  proof -
    from run [of "[plain_message (Str ''user'') (Str u)]"]
    obtain turns :: "(message list \<times> 'j agent_response) list" and st' w'
      where b: "length turns = nat N"
        "conductor_loop env agents agentIds N (initial_state [plain_message (Str ''user'') (Str u)]) w = (Inr st', w')"
        "replay env agents agentIds turns ([plain_message (Str ''user'') (Str u)], 0, w) =
           Some (messages st', agentIndex st', w')"
        "messages st' = [plain_message (Str ''user'') (Str u)] @ concat (map turn_entries turns)"
      by blast
    show ?thesis
      using b pos assms(1)
      by (intro exI [of _ turns] exI [of _ "messages st'"] exI [of _ "agentIndex st'"] exI [of _ w'])
         (simp add: start_conversation_def runMultiAgentConductor_def)
  qed
  show ?thesis using first second by blast
qed

theorem C1_turns_performed_witness:
  "(\<exists>(turns :: (message list \<times> unit agent_response) list) st' w'.
      length turns = 2
      \<and> conductor_loop two_replies_env [agentA, agentB] [1, 2] 2 (initial_state [user_go]) w0 =
          (Inr st', w')
      \<and> turnCount st' = 2
      \<and> replay two_replies_env [agentA, agentB] [1, 2] turns ([user_go], 0, w0) =
          Some (messages st', agentIndex st', w')
      \<and> messages st' = [user_go] @ concat (map turn_entries turns)
      \<and> runMultiAgentConductor two_replies_env [agentA, agentB] [1, 2] [user_go] (Some 2) w0 =
          (Inr \<lparr>conv_messages = messages st'\<rparr>, w'))
   \<and> (\<exists>(turns :: (message list \<times> unit agent_response) list) ms' i' w'.
      length turns = 2
      \<and> replay two_replies_env [agentA, agentB] [1, 2] turns
           ([plain_message (Str ''user'') (Str ''go'')], 0, w0) = Some (ms', i', w')
      \<and> ms' = plain_message (Str ''user'') (Str ''go'') # concat (map turn_entries turns)
      \<and> start_conversation two_replies_env [agentA, agentB]
           \<lparr>agentIds_field = Some [1, 2], userInput = Some ''go'', maxTurns = Some 2\<rparr> w0 =
          (Conversation \<lparr>conv_messages = ms'\<rparr>, w'))
   \<and> runMultiAgentConductor two_replies_env [agentA, agentB] [1, 2] [user_go] (Some 0) w0 =
        (Inr \<lparr>conv_messages = [user_go]\<rparr>, w0)
   \<and> replay two_replies_env [agentA, agentB] [1, 2]
        [([], AssistantText (Str ''```hi```'')), ([], AssistantText (Str ''```hello```''))]
        ([user_go], 0, w0) =
      Some ([user_go, hi_message, hello_message], 0, w_hello)
   \<and> conductor_loop two_replies_env [agentA, agentB] [1, 2] 2 (initial_state [user_go]) w0 =
        (Inr \<lparr>messages = [user_go, hi_message, hello_message], turnCount = 2, agentIndex = 0\<rparr>,
         w_hello)"
proof -
  have ne: "[1::int, 2] \<noteq> []" by simp
  have ids: "\<forall>i \<in> set [1::int, 2]. find_agent [agentA, agentB] (Some i) \<noteq> None"
    by (simp add: find_agent_def agentA_def agentB_def createAgent_def)
  have two: "(0::int) \<le> 2" and zero: "(0::int) \<le> 0" and pos: "(0::int) < 2" by simp_all
  note at_zero = C1_turns_performed [OF ne ids two_replies_turn zero, of "[user_go]" w0 "''go''"]
  then obtain st0 :: conductor_state and v0 :: world where
    "(0::int) = 0 \<longrightarrow> messages st0 = [user_go] \<and> v0 = w0"
    "runMultiAgentConductor two_replies_env [agentA, agentB] [1, 2] [user_go] (Some 0) w0 =
       (Inr \<lparr>conv_messages = messages st0\<rparr>, v0)"
    by blast
  then have none: "runMultiAgentConductor two_replies_env [agentA, agentB] [1, 2] [user_go] (Some 0) w0 =
        (Inr \<lparr>conv_messages = [user_go]\<rparr>, w0)"
    by simp
  note at_two = C1_turns_performed [OF ne ids two_replies_turn two, of "[user_go]" w0 "''go''"]
  then obtain turns :: "(message list \<times> unit agent_response) list" and st' w' where f:
    "length turns = nat 2"
    "conductor_loop two_replies_env [agentA, agentB] [1, 2] 2 (initial_state [user_go]) w0 =
          (Inr st', w')"
    "turnCount st' = nat 2"
    "replay two_replies_env [agentA, agentB] [1, 2] turns ([user_go], 0, w0) =
          Some (messages st', agentIndex st', w')"
    "messages st' = [user_go] @ concat (map turn_entries turns)"
    "runMultiAgentConductor two_replies_env [agentA, agentB] [1, 2] [user_go] (Some 2) w0 =
          (Inr \<lparr>conv_messages = messages st'\<rparr>, w')"
    by blast
  have first: "\<exists>(turns :: (message list \<times> unit agent_response) list) st' w'.
      length turns = 2
      \<and> conductor_loop two_replies_env [agentA, agentB] [1, 2] 2 (initial_state [user_go]) w0 =
          (Inr st', w')
      \<and> turnCount st' = 2
      \<and> replay two_replies_env [agentA, agentB] [1, 2] turns ([user_go], 0, w0) =
          Some (messages st', agentIndex st', w')
      \<and> messages st' = [user_go] @ concat (map turn_entries turns)
      \<and> runMultiAgentConductor two_replies_env [agentA, agentB] [1, 2] [user_go] (Some 2) w0 =
          (Inr \<lparr>conv_messages = messages st'\<rparr>, w')"
    using f by (intro exI [of _ turns] exI [of _ st'] exI [of _ w']) simp
  from at_two pos obtain turns2 :: "(message list \<times> unit agent_response) list" and ms' i' w'' where g:
    "length turns2 = nat 2"
    "replay two_replies_env [agentA, agentB] [1, 2] turns2
           ([plain_message (Str ''user'') (Str ''go'')], 0, w0) = Some (ms', i', w'')"
    "ms' = plain_message (Str ''user'') (Str ''go'') # concat (map turn_entries turns2)"
    "start_conversation two_replies_env [agentA, agentB]
           \<lparr>agentIds_field = Some [1, 2], userInput = Some ''go'', maxTurns = Some 2\<rparr> w0 =
          (Conversation \<lparr>conv_messages = ms'\<rparr>, w'')"
    by blast
  have second: "\<exists>(turns :: (message list \<times> unit agent_response) list) ms' i' w'.
      length turns = 2
      \<and> replay two_replies_env [agentA, agentB] [1, 2] turns
           ([plain_message (Str ''user'') (Str ''go'')], 0, w0) = Some (ms', i', w')
      \<and> ms' = plain_message (Str ''user'') (Str ''go'') # concat (map turn_entries turns)
      \<and> start_conversation two_replies_env [agentA, agentB]
           \<lparr>agentIds_field = Some [1, 2], userInput = Some ''go'', maxTurns = Some 2\<rparr> w0 =
          (Conversation \<lparr>conv_messages = ms'\<rparr>, w')"
    using g by (intro exI [of _ turns2] exI [of _ ms'] exI [of _ i'] exI [of _ w'']) simp
  show ?thesis
    by (intro conjI first second none two_agent_replay two_agent_loop)
qed

text \<open>
  Claim C2: when the model's reply is free text with no tool call, the Responder returns
  it as an assistant message with that text as content.

  The code does not: for an agent without tools and the reply \<open>hi\<close> (no \<^verbatim>\<open>tool_calls\<close>
  property), the reply has no code fence, so the model is called a second time, and then
  \<^verbatim>\<open>message.tool_calls[0]\<close> raises on the missing property; the \<^verbatim>\<open>catch\<close> returns the error
  object, which has neither role nor content. For an agent that holds a tool the model is
  not called at all: the \<^verbatim>\<open>else\<close> of line 206 answers at once.
\<close>

theorem C2_plain_text_reply_is_lost:
  "getCompletionFromAgent (stub_env (\<lambda>n req. says (Str ''hi'') None) [] no_exec) agentA [user_go] w0 =
     (Returned (Some (ErrorObject ''OpenAI API failed''
                        (Str ''Cannot read properties of undefined (reading 0)''))),
      [user_go],
      \<lparr>calls =
         [\<lparr>req_model = ''gpt-4o'',
           req_messages = [plain_message (Str ''system'') (Str ''You are a helpful agent.''), user_go],
           req_tools = None, req_tool_choice = None\<rparr>,
          \<lparr>req_model = ''gpt-4o'',
           req_messages = [plain_message (Str ''system'') (Str ''You are a helpful agent.''), user_go],
           req_tools = Some [], req_tool_choice = Some ''auto''\<rparr>],
       code_py = None\<rparr>)
   \<and> getCompletionFromAgent (stub_env (\<lambda>n req. says (Str ''hi'') None) [''echo.js''] no_exec)
       agentE [user_go] w0 =
     (Returned (Some (MessageOnly ''No function call detected.'')), [user_go], w0)"
  by (simp add: responder_defs example_defs agentE_def)

text \<open>
  Claim C3: the final transcript of a conversation run has the opening messages as an
  unmodified prefix and is at least as long, and every step only appends: nothing appended
  before is changed or removed. Stated for the Responder, whose two pushes act on the
  Conductor's array; for one iteration of the loop, in either of its branches: the final
  transcript of a run that goes through a Responder call begins with the array as that call
  left it followed by the Conductor's entry for its result, and an unknown agent adds the
  diagnostic to the transcript as it is; for the loop from any of its states, so that what
  a state holds is still in place at the end, and a spent budget returns the state as it
  is; and for the whole run.
\<close>

theorem C3_transcript_append_only:
  "(getCompletionFromAgent env agent ms w = (c, ms1, wa) \<longrightarrow> prefix ms ms1)
   \<and> (int (turnCount st) < N
        \<and> find_agent agents (index_opt agentIds (agentIndex st)) = Some agent'
        \<and> getCompletionFromAgent env agent' (messages st) w = (c', ms2, wb)
        \<and> conductor_loop env agents agentIds N st w = (Inr st', w') \<longrightarrow>
        (\<exists>r. c' = Returned (Some r)
           \<and> prefix (ms2 @ [plain_message (response_role r) (response_content r)]) (messages st')))
   \<and> (int (turnCount st) < N
        \<and> find_agent agents (index_opt agentIds (agentIndex st)) = None \<longrightarrow>
        conductor_loop env agents agentIds N st w =
          (Inr (st\<lparr>messages := messages st
                   @ [not_found_message (index_opt agentIds (agentIndex st))]\<rparr>), w))
   \<and> (\<not> int (turnCount st) < N \<longrightarrow> conductor_loop env agents agentIds N st w = (Inr st, w))
   \<and> (conductor_loop env agents agentIds N st w = (Inr st', w') \<longrightarrow>
        prefix (messages st) (messages st') \<and> length (messages st) \<le> length (messages st'))
   \<and> (runMultiAgentConductor env agents agentIds ms max_turns w = (Inr conv, w') \<longrightarrow>
        prefix ms (conv_messages conv) \<and> length ms \<le> length (conv_messages conv))"
proof (intro conjI impI)
  assume "getCompletionFromAgent env agent ms w = (c, ms1, wa)"
  then show "prefix ms ms1" by (rule responder_appends)
next
  assume h: "int (turnCount st) < N
        \<and> find_agent agents (index_opt agentIds (agentIndex st)) = Some agent'
        \<and> getCompletionFromAgent env agent' (messages st) w = (c', ms2, wb)
        \<and> conductor_loop env agents agentIds N st w = (Inr st', w')"
  then have lt: "int (turnCount st) < N"
    and found: "find_agent agents (index_opt agentIds (agentIndex st)) = Some agent'"
    and resp: "getCompletionFromAgent env agent' (messages st) w = (c', ms2, wb)"
    and run: "conductor_loop env agents agentIds N st w = (Inr st', w')"
    by simp_all
  show "\<exists>r. c' = Returned (Some r)
           \<and> prefix (ms2 @ [plain_message (response_role r) (response_content r)]) (messages st')"
  proof (cases c')
    case (Threw e)
    with conductor_loop_threw [OF lt found] resp run show ?thesis by simp
  next
    case (Returned ro)
    show ?thesis
    proof (cases ro)
      case None
      with conductor_loop_undefined [OF lt found] resp run Returned show ?thesis by simp
    next
      case (Some r)
      with conductor_loop_turn [OF lt found] resp run Returned
      have "conductor_loop env agents agentIds N
              \<lparr>messages = ms2 @ [plain_message (response_role r) (response_content r)],
               turnCount = turnCount st + 1,
               agentIndex = (agentIndex st + 1) mod length agentIds\<rparr> wb = (Inr st', w')"
        by simp
      from conductor_loop_appends [OF this] Returned Some show ?thesis by simp
    qed
  qed
next
  assume "int (turnCount st) < N
        \<and> find_agent agents (index_opt agentIds (agentIndex st)) = None"
  then show "conductor_loop env agents agentIds N st w =
          (Inr (st\<lparr>messages := messages st
                   @ [not_found_message (index_opt agentIds (agentIndex st))]\<rparr>), w)"
    by (simp add: conductor_loop_not_found)
next
  assume "\<not> int (turnCount st) < N"
  then show "conductor_loop env agents agentIds N st w = (Inr st, w)"
    by (rule conductor_loop_done)
next
  assume run: "conductor_loop env agents agentIds N st w = (Inr st', w')"
  then show "prefix (messages st) (messages st')" by (rule conductor_loop_appends)
  then show "length (messages st) \<le> length (messages st')" by (rule prefix_length_le)
next
  assume run: "runMultiAgentConductor env agents agentIds ms max_turns w = (Inr conv, w')"
  then obtain st' where
    loop: "conductor_loop env agents agentIds (case max_turns of None \<Rightarrow> 6 | Some n \<Rightarrow> n)
             (initial_state ms) w = (Inr st', w')"
    and conv: "conv = \<lparr>conv_messages = messages st'\<rparr>"
    by (auto simp: runMultiAgentConductor_def split: prod.splits sum.splits)
  from conductor_loop_appends [OF loop]
  show "prefix ms (conv_messages conv)" using conv by (simp add: initial_state_def)
  then show "length ms \<le> length (conv_messages conv)" by (rule prefix_length_le)
qed

theorem C3_transcript_append_only_witness:
  "getCompletionFromAgent round_trip_env agentA [user_go] w0 =
     (Returned (Some (ToolSummary ''echo'' () ''gpt-4o'' (Str ''done'')
                        [user_go, calling_message, echo_result])),
      [user_go, calling_message, echo_result], w_round_trip)
   \<and> conductor_loop round_trip_env [agentA] [1] 1 (initial_state [user_go]) w0 =
     (Inr \<lparr>messages = [user_go, calling_message, echo_result, done_entry],
           turnCount = 1, agentIndex = 0\<rparr>, w_round_trip)
   \<and> runMultiAgentConductor round_trip_env [agentA] [1] [user_go] (Some 1) w0 =
     (Inr \<lparr>conv_messages = [user_go, calling_message, echo_result, done_entry]\<rparr>, w_round_trip)
   \<and> prefix [user_go] [user_go, calling_message, echo_result]
   \<and> prefix [user_go, calling_message, echo_result, done_entry]
         [user_go, calling_message, echo_result, done_entry]
   \<and> prefix [user_go] [user_go, calling_message, echo_result, done_entry]
   \<and> length [user_go] \<le> length [user_go, calling_message, echo_result, done_entry]
   \<and> conductor_loop round_trip_env [agentA] [1] 0 (initial_state [user_go]) w0 =
     (Inr (initial_state [user_go]), w0)
   \<and> conductor_loop round_trip_env [] [999] 6 (initial_state [user_go]) w0 =
     (Inr \<lparr>messages = [user_go, not_found_message (Some 999)], turnCount = 0, agentIndex = 0\<rparr>, w0)"
proof -
  let ?summary = "ToolSummary ''echo'' () ''gpt-4o'' (Str ''done'')
                    [user_go, calling_message, echo_result] :: unit agent_response"
  let ?final = "\<lparr>messages = [user_go, calling_message, echo_result, done_entry],
                 turnCount = 1, agentIndex = 0\<rparr>"
  note turn = round_trip_turn
  note loop = one_round_trip
  note run = one_round_trip_run
  have lt: "int (turnCount (initial_state [user_go])) < 1" by (simp add: initial_state_def)
  have turn': "getCompletionFromAgent round_trip_env agentA (messages (initial_state [user_go])) w0 =
     (Returned (Some ?summary), [user_go, calling_message, echo_result], w_round_trip)"
    by (simp add: initial_state_def round_trip_turn)
  from C3_transcript_append_only
         [where env = round_trip_env and agent = agentA and ms = "[user_go]" and w = w0
            and c = "Returned (Some ?summary)" and ?ms1.0 = "[user_go, calling_message, echo_result]"
            and wa = w_round_trip and st = "initial_state [user_go]" and N = 1
            and agents = "[agentA]" and agentIds = "[1]" and agent' = agentA
            and c' = "Returned (Some ?summary)" and ?ms2.0 = "[user_go, calling_message, echo_result]"
            and wb = w_round_trip and st' = ?final and w' = w_round_trip
            and max_turns = "Some 1"
            and conv = "\<lparr>conv_messages = [user_go, calling_message, echo_result, done_entry]\<rparr>"]
    turn turn' loop run lt found_agentA [of "[user_go]"]
  have a: "prefix [user_go] [user_go, calling_message, echo_result]
      \<and> prefix [user_go, calling_message, echo_result, done_entry]
            [user_go, calling_message, echo_result, done_entry]
      \<and> prefix [user_go] [user_go, calling_message, echo_result, done_entry]
      \<and> length [user_go] \<le> length [user_go, calling_message, echo_result, done_entry]"
    by (simp add: initial_state_def done_entry_def)
  from C3_transcript_append_only
         [where env = round_trip_env and agent = agentA and ms = "[user_go]" and w = w0
            and c = "Returned (Some ?summary)" and ?ms1.0 = "[user_go, calling_message, echo_result]"
            and wa = w_round_trip and st = "initial_state [user_go]" and N = 0
            and agents = "[agentA]" and agentIds = "[1]" and agent' = agentA
            and c' = "Returned (Some ?summary)" and ?ms2.0 = "[user_go, calling_message, echo_result]"
            and wb = w_round_trip and st' = "initial_state [user_go]" and w' = w0
            and max_turns = "Some 0" and conv = "\<lparr>conv_messages = [user_go]\<rparr>"]
  have b: "conductor_loop round_trip_env [agentA] [1] 0 (initial_state [user_go]) w0 =
     (Inr (initial_state [user_go]), w0)"
    by (simp add: initial_state_def)
  have nf: "find_agent ([] :: unit agent list) (index_opt [999] (agentIndex (initial_state [user_go]))) = None"
    by (simp add: find_agent_def index_opt_def initial_state_def)
  have i9: "index_opt [999::int] (agentIndex (initial_state [user_go])) = Some 999"
    by (simp add: index_opt_def initial_state_def)
  have lt6: "int (turnCount (initial_state [user_go])) < 6" by (simp add: initial_state_def)
  from C3_transcript_append_only
         [where env = round_trip_env and agent = agentA and ms = "[user_go]" and w = w0
            and c = "Returned (Some ?summary)" and ?ms1.0 = "[user_go, calling_message, echo_result]"
            and wa = w_round_trip and st = "initial_state [user_go]" and N = 6
            and agents = "[]" and agentIds = "[999]" and agent' = agentA
            and c' = "Returned (Some ?summary)" and ?ms2.0 = "[user_go, calling_message, echo_result]"
            and wb = w_round_trip and st' = "initial_state [user_go]" and w' = w0
            and max_turns = "Some 0" and conv = "\<lparr>conv_messages = [user_go]\<rparr>"]
    nf lt6 i9
  have c: "conductor_loop round_trip_env [] [999] 6 (initial_state [user_go]) w0 =
     (Inr \<lparr>messages = [user_go, not_found_message (Some 999)], turnCount = 0, agentIndex = 0\<rparr>, w0)"
    by (simp add: initial_state_def)
  show ?thesis using turn loop run a b c by simp
qed

text \<open>
  Claim C4: a run whose first resolved agent id is absent from the Agent Store gains
  exactly one system message saying that the agent was not found, stops, and its turn count
  stays 0. The run resolves an id when its turn budget is positive; an id read past the end
  of the list is \<^verbatim>\<open>undefined\<close> and is found in no store.
\<close>

theorem C4_unknown_first_agent:
  assumes "find_agent agents (index_opt agentIds 0) = None"
    and "0 < N"
  shows "conductor_loop env agents agentIds N (initial_state ms) w =
           (Inr \<lparr>messages = ms @ [plain_message (Str ''system'')
                     (Str (''Agent with id='' @ show_id (index_opt agentIds 0) @ '' not found. Stopping.''))],
                 turnCount = 0, agentIndex = 0\<rparr>, w)
         \<and> runMultiAgentConductor env agents agentIds ms (Some N) w =
           (Inr \<lparr>conv_messages = ms @ [plain_message (Str ''system'')
                     (Str (''Agent with id='' @ show_id (index_opt agentIds 0) @ '' not found. Stopping.''))]\<rparr>, w)"
proof -
  have lt: "int (turnCount (initial_state ms)) < N"
    using assms(2) by (simp add: initial_state_def)
  have nf: "find_agent agents (index_opt agentIds (agentIndex (initial_state ms))) = None"
    using assms(1) by (simp add: initial_state_def)
  show ?thesis
    using conductor_loop_not_found [OF lt nf, of env w]
    by (simp add: runMultiAgentConductor_def initial_state_def not_found_message_def)
qed

theorem C4_unknown_first_agent_witness:
  "find_agent ([] :: unit agent list) (index_opt [999] 0) = None \<and> (0::int) < 6
   \<and> runMultiAgentConductor (stub_env (\<lambda>n req. says (Str ''hi'') None) [] no_exec) [] [999] [user_go] (Some 6) w0 =
      (Inr \<lparr>conv_messages = [user_go, plain_message (Str ''system'')
                (Str ''Agent with id=999 not found. Stopping.'')]\<rparr>, w0)"
proof -
  have nf: "find_agent ([] :: unit agent list) (index_opt [999] 0) = None"
    by (simp add: find_agent_def index_opt_def)
  have pos: "(0::int) < 6" by simp
  have shown: "show_id (index_opt [999::int] 0) = ''999''"
    by (simp add: show_id_def index_opt_def show_int_def show_nat.simps)
  show ?thesis
    using C4_unknown_first_agent [OF nf pos, of "stub_env (\<lambda>n req. says (Str ''hi'') None) [] no_exec" "[user_go]" w0] nf shown
    by simp
qed

text \<open>
  Claim C5: \<^verbatim>\<open>assignTool\<close> on an existing agent fails with a duplicate-tool error, leaving the
  tool set unchanged, when the agent already has a tool of that name, and fails with an
  unknown-tool error when the name is absent from the Tool Registry's discovery.

  The handler of \<^verbatim>\<open>POST /add-tool\<close> checks for a duplicate only. For a name that no tool file
  provides it pushes \<^verbatim>\<open>tools[toolName]\<close>, which is \<^verbatim>\<open>undefined\<close>, and answers with success.
  The agent is unusable from then on: the schema construction of line 110 raises outside
  the \<^verbatim>\<open>try\<close>, so that a conversation with it ends in status 500, and the duplicate check of
  a further assignment raises as well.
\<close>

theorem C5_unknown_tool_is_assigned:
  "add_tool fenced_env 1 ''nosuch'' [agentA] =
     (Assigned \<lparr>agent_id = 1, name = ''A'', model = ''gpt-4o'', systemMsg = None,
                 tools = [UndefinedEntry], history = []\<rparr>,
      [\<lparr>agent_id = 1, name = ''A'', model = ''gpt-4o'', systemMsg = None,
         tools = [UndefinedEntry], history = []\<rparr>])
   \<and> getCompletionFromAgent fenced_env agentU [user_go] w0 =
     (Threw (TypeError ''Cannot read properties of undefined (reading details)''), [user_go], w0)
   \<and> start_conversation fenced_env [agentU]
        \<lparr>agentIds_field = Some [1], userInput = Some ''go'', maxTurns = Some 1\<rparr> w0 =
     (ServerError ''Something went wrong.'', w0)
   \<and> add_tool fenced_env 1 ''echo'' [agentU] =
     (Rejected (TypeError ''Cannot read properties of undefined (reading details)''), [agentU])"
proof -
  have assigned: "add_tool fenced_env 1 ''nosuch'' [agentA] =
     (Assigned \<lparr>agent_id = 1, name = ''A'', model = ''gpt-4o'', systemMsg = None,
                 tools = [UndefinedEntry], history = []\<rparr>,
      [\<lparr>agent_id = 1, name = ''A'', model = ''gpt-4o'', systemMsg = None,
         tools = [UndefinedEntry], history = []\<rparr>])"
    by (simp add: add_tool_def find_agent_def agentA_def createAgent_def getTools_def fenced_env_def
          stub_env_def get_property_def object_prototype_keys_def entry_of_def)
  have raised: "getCompletionFromAgent fenced_env agentU [user_go] w0 =
     (Threw (TypeError ''Cannot read properties of undefined (reading details)''), [user_go], w0)"
    by (simp add: getCompletionFromAgent_def agentU_def)
  have found: "find_agent [agentU] (index_opt [1] (agentIndex (initial_state [user_go]))) = Some agentU"
    by (simp add: find_agent_def index_opt_def initial_state_def agentU_def)
  have lt: "int (turnCount (initial_state [user_go])) < 1" by (simp add: initial_state_def)
  have "getCompletionFromAgent fenced_env agentU (messages (initial_state [user_go])) w0 =
     (Threw (TypeError ''Cannot read properties of undefined (reading details)''), [user_go], w0)"
    using raised by (simp add: initial_state_def)
  from conductor_loop_threw [OF lt found this]
  have failed: "start_conversation fenced_env [agentU]
        \<lparr>agentIds_field = Some [1], userInput = Some ''go'', maxTurns = Some 1\<rparr> w0 =
     (ServerError ''Something went wrong.'', w0)"
    by (simp add: start_conversation_def runMultiAgentConductor_def user_go_def)
  have again: "add_tool fenced_env 1 ''echo'' [agentU] =
     (Rejected (TypeError ''Cannot read properties of undefined (reading details)''), [agentU])"
    by (simp add: add_tool_def find_agent_def agentU_def)
  show ?thesis by (intro conjI assigned raised failed again)
qed

text \<open>
  Claim C6: a failing model call or tool execution is not recovered by the Responder but
  propagates out of it to whatever invoked the turn.

  The whole body of \<^verbatim>\<open>getCompletionFromAgent\<close> is inside a \<^verbatim>\<open>try\<close> whose \<^verbatim>\<open>catch\<close> returns
  \<^verbatim>\<open>{ error: 'OpenAI API failed', details: error.message }\<close>: both failures come back as
  ordinary values.
\<close>

theorem C6_counterexample:
  "fst (getCompletionFromAgent down_env agentA [user_go] w0) =
     Returned (Some (ErrorObject ''OpenAI API failed'' (Str ''connection refused'')))
   \<and> fst (getCompletionFromAgent failing_tool_env agentA [user_go] w0) =
     Returned (Some (ErrorObject ''OpenAI API failed'' (Str ''boom'')))"
  by (simp add: down_turn failing_tool_turn)

text \<open>
  Claim C6 as the code has it, for an agent without tools and a failure that has a message
  (an \<^verbatim>\<open>Error\<close>, or a thrown string, whose message is \<^verbatim>\<open>undefined\<close>): wherever in the turn the
  failure occurs, in the first model call, the second one, the discovery of the tools, the
  execution of the tool, the serialisation of its result or the follow-up model call, the
  Responder returns the error object carrying that message, with the transcript as the
  turn left it (the two pushes stay when the follow-up call fails). The only exceptions
  that leave the Responder are the \<^verbatim>\<open>TypeError\<close> of the schema construction, which is outside
  the \<^verbatim>\<open>try\<close> and needs an \<^verbatim>\<open>undefined\<close> tool entry, and the \<^verbatim>\<open>TypeError\<close> that reading
  \<^verbatim>\<open>error.message\<close> raises in the \<^verbatim>\<open>catch\<close> when \<^verbatim>\<open>null\<close> or \<^verbatim>\<open>undefined\<close> was thrown.
\<close>

theorem C6_failures_are_caught:
  "(getCompletionFromAgent env agent ms w = (Threw x, ms', w') \<longrightarrow>
      UndefinedEntry \<in> set (tools agent)
      \<or> error_message (ThrownValue Null) = Inl x
      \<or> error_message (ThrownValue Undefined) = Inl x)
   \<and> (tools agent = [] \<and> error_message e = Inr d \<longrightarrow>
      (create env (length (calls w)) (first_request agent ms) = Inl e \<longrightarrow>
         getCompletionFromAgent env agent ms w =
           (Returned (Some (ErrorObject ''OpenAI API failed'' d)), ms,
            after_calls w [first_request agent ms]))
      \<and> (create env (length (calls w)) (first_request agent ms) = Inr response
          \<and> first_message response = Inr (Some message)
          \<and> content message = Str body
          \<and> \<not> includes_str body fence \<longrightarrow>
         (create env (Suc (length (calls w))) (second_request agent ms) = Inl e \<longrightarrow>
            getCompletionFromAgent env agent ms w =
              (Returned (Some (ErrorObject ''OpenAI API failed'' d)), ms,
               after_calls w [first_request agent ms, second_request agent ms]))
         \<and> (create env (Suc (length (calls w))) (second_request agent ms) = Inr response2
             \<and> tool_calls message = Some (tc # rest) \<longrightarrow>
            (getTools env = Inl e \<longrightarrow>
               getCompletionFromAgent env agent ms w =
                 (Returned (Some (ErrorObject ''OpenAI API failed'' d)), ms,
                  after_calls w [first_request agent ms, second_request agent ms]))
            \<and> (getTools env = Inr allTools
                \<and> allTools (fn_name tc) = Some tool
                \<and> Object_values env (parse_arguments env tc) = Inr args \<longrightarrow>
               (execute tool args = Inl e \<longrightarrow>
                  getCompletionFromAgent env agent ms w =
                    (Returned (Some (ErrorObject ''OpenAI API failed'' d)), ms,
                     after_calls w [first_request agent ms, second_request agent ms]))
               \<and> (execute tool args = Inr result \<longrightarrow>
                  (JSON_stringify env result = Inl e \<longrightarrow>
                     getCompletionFromAgent env agent ms w =
                       (Returned (Some (ErrorObject ''OpenAI API failed'' d)), ms,
                        after_calls w [first_request agent ms, second_request agent ms]))
                  \<and> (JSON_stringify env result = Inr serialised
                      \<and> create env (Suc (Suc (length (calls w))))
                            (follow_up_request agent ms message tc serialised) = Inl e \<longrightarrow>
                     getCompletionFromAgent env agent ms w =
                       (Returned (Some (ErrorObject ''OpenAI API failed'' d)),
                        ms @ [message, tool_result_message tc serialised],
                        after_calls w [first_request agent ms, second_request agent ms,
                           follow_up_request agent ms message tc serialised])))))))"
proof (intro conjI impI; (elim conjE)?)
  show "getCompletionFromAgent env agent ms w = (Threw x, ms', w') \<Longrightarrow>
      UndefinedEntry \<in> set (tools agent)
      \<or> error_message (ThrownValue Null) = Inl x
      \<or> error_message (ThrownValue Undefined) = Inl x"
    by (rule responder_throws)
qed (rule first_call_fails second_call_fails responder_discovery_fails responder_execute_fails
       responder_stringify_fails responder_follow_up_fails; assumption)+

theorem C6_failures_are_caught_witness:
  "getCompletionFromAgent down_env agentA [user_go] w0 =
     (Returned (Some (ErrorObject ''OpenAI API failed'' (Str ''connection refused''))),
      [user_go], w_down)
   \<and> getCompletionFromAgent second_call_fails_env agentA [user_go] w0 =
     (Returned (Some (ErrorObject ''OpenAI API failed'' (Str ''rate limit''))), [user_go], w_twice)
   \<and> getCompletionFromAgent no_tools_dir_env agentA [user_go] w0 =
     (Returned (Some (ErrorObject ''OpenAI API failed'' (Str ''ENOENT''))), [user_go], w_twice)
   \<and> getCompletionFromAgent failing_tool_env agentA [user_go] w0 =
     (Returned (Some (ErrorObject ''OpenAI API failed'' (Str ''boom''))), [user_go], w_twice)
   \<and> getCompletionFromAgent unserialisable_env agentA [user_go] w0 =
     (Returned (Some (ErrorObject ''OpenAI API failed'' (Str ''cyclic''))), [user_go], w_twice)
   \<and> getCompletionFromAgent follow_up_fails_env agentA [user_go] w0 =
     (Returned (Some (ErrorObject ''OpenAI API failed'' (Str ''rate limit''))),
      [user_go, calling_message, echo_result], w_round_trip)
   \<and> getCompletionFromAgent null_throw_env agentA [user_go] w0 =
     (Threw (TypeError ''Cannot read properties of null (reading message)''), [user_go], w_twice)
   \<and> error_message (ThrownValue Null) =
     Inl (TypeError ''Cannot read properties of null (reading message)'')"
proof -
  have no_tools: "tools agentA = []" by (simp add: agentA_def createAgent_def)
  have r1: "after_calls w0 [first_request agentA [user_go]] = w_down"
    by (simp add: request_defs w0_def w_down_def system_message_def agentA_def createAgent_def
          plain_request_def)
  have r2: "after_calls w0 [first_request agentA [user_go], second_request agentA [user_go]] = w_twice"
    by (simp add: request_defs w0_def w_twice_def system_default_def system_message_def agentA_def
          createAgent_def)
  have tr: "tool_result_message echo_call (Str ''null'') = echo_result"
    by (simp add: tool_result_message_def echo_result_def echo_call_def)
  have r3: "after_calls w0 [first_request agentA [user_go], second_request agentA [user_go],
              follow_up_request agentA [user_go] calling_message echo_call (Str ''null'')] = w_round_trip"
    by (simp add: request_defs w0_def w_round_trip_def system_default_def system_message_def
          agentA_def createAgent_def echo_result_def echo_call_def)
  have fm: "first_message [Some calling_message] = Inr (Some calling_message)"
    by (simp add: first_message_def)
  have ct: "content calling_message = Str ''calling''" by (simp add: calling_message_def)
  have tcs: "tool_calls calling_message = Some (echo_call # [])" by (simp add: calling_message_def)
  have nf: "\<not> includes_str ''calling'' fence" by (simp add: fence_def startsWith_def)
  have nf2: "\<not> includes_str ''hi'' fence" by (simp add: fence_def startsWith_def)
  have nm: "fn_name echo_call = ''echo''" by (simp add: echo_call_def)
  have down: "create down_env (length (calls w0)) (first_request agentA [user_go]) =
      Inl (ModelCallError ''connection refused'')"
    by (simp add: down_env_def stub_env_def)
  have s1: "create second_call_fails_env (length (calls w0)) (first_request agentA [user_go]) =
      Inr [Some (calling_message\<lparr>content := Str ''hi'', tool_calls := None\<rparr>)]"
    by (simp add: second_call_fails_env_def stub_env_def says_def calling_message_def w0_def)
  have s2: "create second_call_fails_env (Suc (length (calls w0))) (second_request agentA [user_go]) =
      Inl (ModelCallError ''rate limit'')"
    by (simp add: second_call_fails_env_def stub_env_def says_def w0_def)
  have nd: "getTools no_tools_dir_env = Inl (FsError ''ENOENT'')"
    by (simp add: getTools_def no_tools_dir_env_def stub_env_def)
  have boom: "execute echo_module [] = Inl (ToolExecutionError ''boom'')"
    by (simp add: echo_module_def no_exec_def)
  have ok: "execute echo_ok_module [] = Inr ()" by (simp add: echo_ok_module_def echo_ok_def)
  have cyc: "JSON_stringify unserialisable_env () = Inl (TypeError ''cyclic'')"
    by (simp add: unserialisable_env_def)
  have ser: "JSON_stringify follow_up_fails_env () = Inr (Str ''null'')"
    by (simp add: follow_up_fails_env_def stub_env_def)
  have fu: "create follow_up_fails_env (Suc (Suc (length (calls w0))))
      (follow_up_request agentA [user_go] calling_message echo_call (Str ''null'')) =
      Inl (ModelCallError ''rate limit'')"
    by (simp add: follow_up_fails_env_def stub_env_def w0_def)
  have failing_tool_env_c1: "create failing_tool_env (length (calls w0)) (first_request agentA [user_go]) =
      Inr [Some calling_message]"
    by (simp add: failing_tool_env_def round_trip_env_def stub_env_def says_def calling_message_def w0_def)
  have failing_tool_env_c2: "create failing_tool_env (Suc (length (calls w0))) (second_request agentA [user_go]) =
      Inr [Some calling_message]"
    by (simp add: failing_tool_env_def round_trip_env_def stub_env_def says_def calling_message_def w0_def)
  have failing_tool_env_ov: "Object_values failing_tool_env (parse_arguments failing_tool_env echo_call) = Inr []"
    by (simp add: failing_tool_env_def round_trip_env_def stub_env_def)
  have failing_tool_env_gt: "getTools failing_tool_env = Inr [''echo'' \<mapsto> echo_module]"
    by (simp add: getTools_def failing_tool_env_def round_trip_env_def stub_env_def endsWith_def slice_off3_def
          echo_module_def echo_ok_module_def)
  have unserialisable_env_c1: "create unserialisable_env (length (calls w0)) (first_request agentA [user_go]) =
      Inr [Some calling_message]"
    by (simp add: unserialisable_env_def round_trip_env_def stub_env_def says_def calling_message_def w0_def)
  have unserialisable_env_c2: "create unserialisable_env (Suc (length (calls w0))) (second_request agentA [user_go]) =
      Inr [Some calling_message]"
    by (simp add: unserialisable_env_def round_trip_env_def stub_env_def says_def calling_message_def w0_def)
  have unserialisable_env_ov: "Object_values unserialisable_env (parse_arguments unserialisable_env echo_call) = Inr []"
    by (simp add: unserialisable_env_def round_trip_env_def stub_env_def)
  have unserialisable_env_gt: "getTools unserialisable_env = Inr [''echo'' \<mapsto> echo_ok_module]"
    by (simp add: getTools_def unserialisable_env_def round_trip_env_def stub_env_def endsWith_def slice_off3_def
          echo_module_def echo_ok_module_def)
  have follow_up_fails_env_c1: "create follow_up_fails_env (length (calls w0)) (first_request agentA [user_go]) =
      Inr [Some calling_message]"
    by (simp add: follow_up_fails_env_def round_trip_env_def stub_env_def says_def calling_message_def w0_def)
  have follow_up_fails_env_c2: "create follow_up_fails_env (Suc (length (calls w0))) (second_request agentA [user_go]) =
      Inr [Some calling_message]"
    by (simp add: follow_up_fails_env_def round_trip_env_def stub_env_def says_def calling_message_def w0_def)
  have follow_up_fails_env_ov: "Object_values follow_up_fails_env (parse_arguments follow_up_fails_env echo_call) = Inr []"
    by (simp add: follow_up_fails_env_def round_trip_env_def stub_env_def)
  have follow_up_fails_env_gt: "getTools follow_up_fails_env = Inr [''echo'' \<mapsto> echo_ok_module]"
    by (simp add: getTools_def follow_up_fails_env_def round_trip_env_def stub_env_def endsWith_def slice_off3_def
          echo_module_def echo_ok_module_def)
  have null_throw_env_c1: "create null_throw_env (length (calls w0)) (first_request agentA [user_go]) =
      Inr [Some calling_message]"
    by (simp add: null_throw_env_def round_trip_env_def stub_env_def says_def calling_message_def w0_def)
  have null_throw_env_c2: "create null_throw_env (Suc (length (calls w0))) (second_request agentA [user_go]) =
      Inr [Some calling_message]"
    by (simp add: null_throw_env_def round_trip_env_def stub_env_def says_def calling_message_def w0_def)
  have null_throw_env_ov: "Object_values null_throw_env (parse_arguments null_throw_env echo_call) = Inr []"
    by (simp add: null_throw_env_def round_trip_env_def stub_env_def)
  have null_throw_env_gt: "getTools null_throw_env = Inr [''echo'' \<mapsto> \<lparr>details = \<lparr>details_name = Some ''echo''\<rparr>, execute = (\<lambda>args. Inl (ThrownValue Null))\<rparr>]"
    by (simp add: getTools_def null_throw_env_def round_trip_env_def stub_env_def endsWith_def slice_off3_def
          echo_module_def echo_ok_module_def)
  have no_tools_dir_env_c1: "create no_tools_dir_env (length (calls w0)) (first_request agentA [user_go]) =
      Inr [Some calling_message]"
    by (simp add: no_tools_dir_env_def round_trip_env_def stub_env_def says_def calling_message_def w0_def)
  have no_tools_dir_env_c2: "create no_tools_dir_env (Suc (length (calls w0))) (second_request agentA [user_go]) =
      Inr [Some calling_message]"
    by (simp add: no_tools_dir_env_def round_trip_env_def stub_env_def says_def calling_message_def w0_def)
  have no_tools_dir_env_ov: "Object_values no_tools_dir_env (parse_arguments no_tools_dir_env echo_call) = Inr []"
    by (simp add: no_tools_dir_env_def round_trip_env_def stub_env_def)
  from C6_failures_are_caught
         [where env = down_env and agent = agentA and ms = "[user_go]" and w = w0
            and x = "TypeError []" and ms' = "[user_go]" and w' = w_twice
            and e = "ModelCallError ''connection refused''" and d = "Str ''connection refused''"
            and response = "[Some calling_message]" and message = "calling_message"
            and body = "''calling''" and ?response2.0 = "[Some calling_message]"
            and tc = echo_call and rest = "[]"
            and allTools = "[''echo'' \<mapsto> echo_module]"
            and tool = "echo_module" and args = "[]" and result = "()"
            and serialised = "Str ''null''"]
    no_tools down r1
  have one: "getCompletionFromAgent down_env agentA [user_go] w0 =
     (Returned (Some (ErrorObject ''OpenAI API failed'' (Str ''connection refused''))),
      [user_go], w_down)"
    by simp
  from C6_failures_are_caught
         [where env = second_call_fails_env and agent = agentA and ms = "[user_go]" and w = w0
            and x = "TypeError []" and ms' = "[user_go]" and w' = w_twice
            and e = "ModelCallError ''rate limit''" and d = "Str ''rate limit''"
            and response = "[Some (calling_message\<lparr>content := Str ''hi'', tool_calls := None\<rparr>)]" and message = "calling_message\<lparr>content := Str ''hi'', tool_calls := None\<rparr>"
            and body = "''hi''" and ?response2.0 = "[Some calling_message]"
            and tc = echo_call and rest = "[]"
            and allTools = "[''echo'' \<mapsto> echo_module]"
            and tool = "echo_module" and args = "[]" and result = "()"
            and serialised = "Str ''null''"]
    no_tools s1 s2 nf2 r2
  have two: "getCompletionFromAgent second_call_fails_env agentA [user_go] w0 =
     (Returned (Some (ErrorObject ''OpenAI API failed'' (Str ''rate limit''))), [user_go], w_twice)"
    by (simp add: first_message_def)
  from C6_failures_are_caught
         [where env = no_tools_dir_env and agent = agentA and ms = "[user_go]" and w = w0
            and x = "TypeError []" and ms' = "[user_go]" and w' = w_twice
            and e = "FsError ''ENOENT''" and d = "Str ''ENOENT''"
            and response = "[Some calling_message]" and message = "calling_message"
            and body = "''calling''" and ?response2.0 = "[Some calling_message]"
            and tc = echo_call and rest = "[]"
            and allTools = "[''echo'' \<mapsto> echo_module]"
            and tool = "echo_module" and args = "[]" and result = "()"
            and serialised = "Str ''null''"]
    no_tools no_tools_dir_env_c1 no_tools_dir_env_c2 fm ct tcs nf nd r2
  have three: "getCompletionFromAgent no_tools_dir_env agentA [user_go] w0 =
     (Returned (Some (ErrorObject ''OpenAI API failed'' (Str ''ENOENT''))), [user_go], w_twice)"
    by simp
  from C6_failures_are_caught
         [where env = failing_tool_env and agent = agentA and ms = "[user_go]" and w = w0
            and x = "TypeError []" and ms' = "[user_go]" and w' = w_twice
            and e = "ToolExecutionError ''boom''" and d = "Str ''boom''"
            and response = "[Some calling_message]" and message = "calling_message"
            and body = "''calling''" and ?response2.0 = "[Some calling_message]"
            and tc = echo_call and rest = "[]"
            and allTools = "[''echo'' \<mapsto> echo_module]"
            and tool = "echo_module" and args = "[]" and result = "()"
            and serialised = "Str ''null''"]
    no_tools failing_tool_env_c1 failing_tool_env_c2 fm ct tcs nf failing_tool_env_gt
    failing_tool_env_ov nm boom r2
  have four: "getCompletionFromAgent failing_tool_env agentA [user_go] w0 =
     (Returned (Some (ErrorObject ''OpenAI API failed'' (Str ''boom''))), [user_go], w_twice)"
    by simp
  from C6_failures_are_caught
         [where env = unserialisable_env and agent = agentA and ms = "[user_go]" and w = w0
            and x = "TypeError []" and ms' = "[user_go]" and w' = w_twice
            and e = "TypeError ''cyclic''" and d = "Str ''cyclic''"
            and response = "[Some calling_message]" and message = "calling_message"
            and body = "''calling''" and ?response2.0 = "[Some calling_message]"
            and tc = echo_call and rest = "[]"
            and allTools = "[''echo'' \<mapsto> echo_ok_module]"
            and tool = "echo_ok_module" and args = "[]" and result = "()"
            and serialised = "Str ''null''"]
    no_tools unserialisable_env_c1 unserialisable_env_c2 fm ct tcs nf unserialisable_env_gt
    unserialisable_env_ov nm ok cyc r2
  have five: "getCompletionFromAgent unserialisable_env agentA [user_go] w0 =
     (Returned (Some (ErrorObject ''OpenAI API failed'' (Str ''cyclic''))), [user_go], w_twice)"
    by simp
  from C6_failures_are_caught
         [where env = follow_up_fails_env and agent = agentA and ms = "[user_go]" and w = w0
            and x = "TypeError []" and ms' = "[user_go]" and w' = w_twice
            and e = "ModelCallError ''rate limit''" and d = "Str ''rate limit''"
            and response = "[Some calling_message]" and message = "calling_message"
            and body = "''calling''" and ?response2.0 = "[Some calling_message]"
            and tc = echo_call and rest = "[]"
            and allTools = "[''echo'' \<mapsto> echo_ok_module]"
            and tool = "echo_ok_module" and args = "[]" and result = "()"
            and serialised = "Str ''null''"]
    no_tools follow_up_fails_env_c1 follow_up_fails_env_c2 fm ct tcs nf follow_up_fails_env_gt
    follow_up_fails_env_ov nm ok ser fu r3 tr
  have six: "getCompletionFromAgent follow_up_fails_env agentA [user_go] w0 =
     (Returned (Some (ErrorObject ''OpenAI API failed'' (Str ''rate limit''))),
      [user_go, calling_message, echo_result], w_round_trip)"
    by simp
  have seven: "getCompletionFromAgent null_throw_env agentA [user_go] w0 =
     (Threw (TypeError ''Cannot read properties of null (reading message)''), [user_go], w_twice)"
    by (simp add: responder_defs example_defs w_twice_def system_default_def)
  from C6_failures_are_caught
         [where env = null_throw_env and agent = agentA and ms = "[user_go]" and w = w0
            and x = "TypeError ''Cannot read properties of null (reading message)''" and ms' = "[user_go]" and w' = w_twice
            and e = "ModelCallError ''rate limit''" and d = "Str ''rate limit''"
            and response = "[Some calling_message]" and message = "calling_message"
            and body = "''calling''" and ?response2.0 = "[Some calling_message]"
            and tc = echo_call and rest = "[]"
            and allTools = "[''echo'' \<mapsto> echo_module]"
            and tool = "echo_module" and args = "[]" and result = "()"
            and serialised = "Str ''null''"]
    seven no_tools
  have eight: "error_message (ThrownValue Null) =
     Inl (TypeError ''Cannot read properties of null (reading message)'')"
    by simp
  show ?thesis using one two three four five six seven eight by simp
qed

text \<open>
  Claim C7: two distinct agent creations return distinct identities, assigned in creation
  order.

  The identity is the clock reading \<^verbatim>\<open>Date.now()\<close>: two creations handled within the same
  millisecond get the same identity.
\<close>

theorem C7_same_millisecond_same_id:
  "map agent_id
     (snd (create_agent_route 1700000000000 (Some ''B'') (Some ''gpt-4o'') None
        (snd (create_agent_route 1700000000000 (Some ''A'') (Some ''gpt-4o'') None
           ([] :: unit agent list))))) =
   [1700000000000, 1700000000000]"
  by (simp add: create_agent_route_def createAgent_def Let_def)

text \<open>
  Claim C8: the assistant message the Conductor appends for a successful turn is attributed
  with the responding agent's name; agents A and B answering in two turns give the entries
  assistant/A and assistant/B after the user message.

  The Conductor appends \<^verbatim>\<open>{ role, content }\<close> and nothing else: in the two-agent run below
  (the replies are fenced, so that both turns succeed) no entry carries a name.
\<close>

theorem C8_no_author_name:
  "runMultiAgentConductor two_replies_env [agentA, agentB] [1, 2] [user_go] (Some 2) w0 =
     (Inr \<lparr>conv_messages =
        [\<lparr>role = Str ''user'', content = Str ''go'', msg_name = None,
           tool_call_id = None, tool_calls = None\<rparr>,
         \<lparr>role = Str ''assistant'', content = Str ''```hi```'', msg_name = None,
           tool_call_id = None, tool_calls = None\<rparr>,
         \<lparr>role = Str ''assistant'', content = Str ''```hello```'', msg_name = None,
           tool_call_id = None, tool_calls = None\<rparr>]\<rparr>, w_hello)
   \<and> name agentA = ''A'' \<and> name agentB = ''B''"
proof -
  have "runMultiAgentConductor two_replies_env [agentA, agentB] [1, 2] [user_go] (Some 2) w0 =
          (Inr \<lparr>conv_messages = [user_go, hi_message, hello_message]\<rparr>, w_hello)"
    by (simp add: runMultiAgentConductor_def two_agent_loop)
  then show ?thesis
    by (simp add: hi_message_def hello_message_def user_go_def plain_message_def
          agentA_def agentB_def createAgent_def)
qed

text \<open>
  Claim C9: when the model requests a tool that the Tool Registry does not provide, the
  Responder returns an assistant message saying that the tool was not found, and calls the
  model no further in that turn.

  The code returns no assistant message. A tool request with \<^verbatim>\<open>content: null\<close> never reaches
  the registry: \<^verbatim>\<open>content.includes\<close> raises and the \<^verbatim>\<open>catch\<close> returns the error object. A
  tool request that comes with text is answered, after a second model call, by
  \<^verbatim>\<open>{ message: 'No function call detected.' }\<close>, without role or content.
\<close>

theorem C9_unknown_tool_reply:
  "getCompletionFromAgent (unknown_tool_env Null) agentA [user_go] w0 =
     (Returned (Some (ErrorObject ''OpenAI API failed''
                        (Str ''Cannot read properties of null (reading includes)''))),
      [user_go], w_down)
   \<and> getCompletionFromAgent (unknown_tool_env (Str ''calling'')) agentA [user_go] w0 =
     (Returned (Some (MessageOnly ''No function call detected.'')), [user_go], w_twice)"
  by (simp add: responder_defs example_defs unknown_tool_env_def nosuch_call_def w_twice_def
        w_down_def system_default_def)



end
